theory Spec2Isabelle
  imports Complex_Main "HOL-Library.Char_ord" "HOL-Library.List_Lexorder"
    "HOL-Library.Product_Lexorder"
begin

section \<open>Data model\<close>

text \<open>
  The inventory processor works on pandas tables whose rows are dictionaries. A row of
  \<^verbatim>\<open>discrepancies_df\<close> / \<^verbatim>\<open>distributed_df\<close> is modelled as a record with the columns the
  code reads and writes. Text columns are \<open>string\<close>s over 8-bit characters, ordered by
  code point as Python orders \<^verbatim>\<open>str\<close>.

  Quantities are Python floats in the source. A Python float is a finite number, an
  infinity (\<open>Inf True\<close> is the negative one) or a NaN. A finite value is modelled as the
  exact real it denotes: rounding to the nearest double and the sign of zero are not
  modelled. The quantity of a stock line is modelled as a finite number (by default the
  parser replaces a quantity it cannot read by 0); the counted quantity of an article is
  the cell of the completed template, which is a NaN when the cell is empty, and the
  adjustment and the corrected quantity are computed from it.

  A lot date is the \<^verbatim>\<open>datetime(year, month, day)\<close> built by the lot classifier; it is
  modelled as the triple of its components and ordered chronologically. A missing date
  (\<^verbatim>\<open>None\<close>/\<^verbatim>\<open>NaT\<close>) is \<open>None\<close>.
\<close>

datatype pyfloat = Finite real | Inf bool | NaN

text \<open>The arithmetic and the comparisons of floats that the code uses. Every comparison
  with a NaN is false.\<close>

fun py_neg :: "pyfloat \<Rightarrow> pyfloat" where
  "py_neg (Finite x) = Finite (- x)"
| "py_neg (Inf neg) = Inf (\<not> neg)"
| "py_neg NaN = NaN"

fun py_add :: "pyfloat \<Rightarrow> pyfloat \<Rightarrow> pyfloat" where
  "py_add (Finite x) (Finite y) = Finite (x + y)"
| "py_add (Finite x) (Inf n) = Inf n"
| "py_add (Inf m) (Finite y) = Inf m"
| "py_add (Inf m) (Inf n) = (if m = n then Inf m else NaN)"
| "py_add NaN y = NaN"
| "py_add x NaN = NaN"

definition py_sub :: "pyfloat \<Rightarrow> pyfloat \<Rightarrow> pyfloat" where
  "py_sub x y = py_add x (py_neg y)"

fun py_abs :: "pyfloat \<Rightarrow> pyfloat" where
  "py_abs (Finite x) = Finite \<bar>x\<bar>"
| "py_abs (Inf neg) = Inf False"
| "py_abs NaN = NaN"

fun py_eq :: "pyfloat \<Rightarrow> pyfloat \<Rightarrow> bool" where
  "py_eq (Finite x) (Finite y) = (x = y)"
| "py_eq (Inf m) (Inf n) = (m = n)"
| "py_eq x y = False"

fun py_less :: "pyfloat \<Rightarrow> pyfloat \<Rightarrow> bool" where
  "py_less (Finite x) (Finite y) = (x < y)"
| "py_less (Finite x) (Inf n) = (\<not> n)"
| "py_less (Inf m) (Finite y) = m"
| "py_less (Inf m) (Inf n) = (m \<and> \<not> n)"
| "py_less NaN y = False"
| "py_less x NaN = False"

fun py_le :: "pyfloat \<Rightarrow> pyfloat \<Rightarrow> bool" where
  "py_le (Finite x) (Finite y) = (x \<le> y)"
| "py_le (Finite x) (Inf n) = (\<not> n)"
| "py_le (Inf m) (Finite y) = m"
| "py_le (Inf m) (Inf n) = (m \<or> \<not> n)"
| "py_le NaN y = False"
| "py_le x NaN = False"

datatype date = Date (year: nat) (month: nat) (day: nat)

fun date_less :: "date \<Rightarrow> date \<Rightarrow> bool" where
  "date_less (Date y1 m1 d1) (Date y2 m2 d2) =
     (y1 < y2 \<or> (y1 = y2 \<and> (m1 < m2 \<or> (m1 = m2 \<and> d1 < d2))))"

record row =
  CODE_ARTICLE :: string
  NUMERO_INVENTAIRE :: string
  NUMERO_LOT :: string
  TYPE_LOT :: string
  QUANTITE_ORIGINALE :: real
  QUANTITE_REELLE_SAISIE_TOTALE :: pyfloat
  AJUSTEMENT :: pyfloat
  QUANTITE_CORRIGEE :: pyfloat
  Date_Lot :: "date option"
  STATUT :: string
  UNITE :: string
  ZONE_PK :: string
  EMPLACEMENT :: string
  QUANTITE_REELLE_SAISIE :: "pyfloat option"
  reference_line :: "string option"
  is_new_lotecart :: "bool option"
  is_existing_update :: "bool option"

section \<open>Distribution engine: \<^verbatim>\<open>InventoryProcessor.distribute_discrepancies\<close>\<close>

subsection \<open>Ordering policies\<close>

text \<open>
  \<^verbatim>\<open>group.sort_values(['Date_Lot', 'NUMERO_LOT'], na_position='last')\<close> for FIFO and
  \<^verbatim>\<open>sort_values([...], ascending=[False, False], na_position='first')\<close> for LIFO. A sort on
  several columns is a stable lexicographic sort in pandas: rows with equal
  (date, lot) keep their order in the group. \<open>fifo_before a b\<close> says that the key of \<open>a\<close>
  sorts strictly before the key of \<open>b\<close> under FIFO, \<open>lifo_before\<close> likewise under LIFO.
\<close>

fun date_before_na_last :: "date option \<Rightarrow> date option \<Rightarrow> bool" where
  "date_before_na_last (Some a) (Some b) = date_less a b"
| "date_before_na_last (Some a) None = True"
| "date_before_na_last None _ = False"

fun date_after_na_first :: "date option \<Rightarrow> date option \<Rightarrow> bool" where
  "date_after_na_first (Some a) (Some b) = date_less b a"
| "date_after_na_first None (Some b) = True"
| "date_after_na_first _ None = False"

definition fifo_before :: "row \<Rightarrow> row \<Rightarrow> bool" where
  "fifo_before a b =
     (date_before_na_last (Date_Lot a) (Date_Lot b)
      \<or> (Date_Lot a = Date_Lot b \<and> NUMERO_LOT a < NUMERO_LOT b))"

definition lifo_before :: "row \<Rightarrow> row \<Rightarrow> bool" where
  "lifo_before a b =
     (date_after_na_first (Date_Lot a) (Date_Lot b)
      \<or> (Date_Lot a = Date_Lot b \<and> NUMERO_LOT b < NUMERO_LOT a))"

text \<open>Stable insertion sort. The rows after \<open>x\<close> in the group are sorted first; \<open>x\<close>
  is then placed after the rows that sort strictly before it and in front of all others,
  so in front of the rows it ties with, which came later in the group.\<close>

fun insert_stable :: "(row \<Rightarrow> row \<Rightarrow> bool) \<Rightarrow> row \<Rightarrow> row list \<Rightarrow> row list" where
  "insert_stable before x [] = [x]"
| "insert_stable before x (y # ys) =
     (if before y x then y # insert_stable before x ys else x # y # ys)"

fun sort_stable :: "(row \<Rightarrow> row \<Rightarrow> bool) \<Rightarrow> row list \<Rightarrow> row list" where
  "sort_stable before [] = []"
| "sort_stable before (x # xs) = insert_stable before x (sort_stable before xs)"

text \<open>The strategy argument is a string; anything other than FIFO and LIFO keeps the
  order of the group.\<close>

definition sorted_group :: "string \<Rightarrow> row list \<Rightarrow> row list" where
  "sorted_group strategy grp =
     (if strategy = ''FIFO'' then sort_stable fifo_before grp
      else if strategy = ''LIFO'' then sort_stable lifo_before grp
      else grp)"

subsection \<open>The allocation loop\<close>

text \<open>
  One iteration of the loop over the sorted lots: from the position \<open>idx\<close>, the remaining
  delta \<open>ecart_restant\<close> and the lot's original quantity it computes
  \<open>(quantite_corrigee, ajustement_lot, ecart_restant')\<close>.
\<close>

definition allocate :: "nat \<Rightarrow> pyfloat \<Rightarrow> real \<Rightarrow> pyfloat \<times> pyfloat \<times> pyfloat" where
  "allocate idx ecart_restant quantite_originale_lot =
     (if py_eq ecart_restant (Finite 0)
      then (Finite quantite_originale_lot, Finite 0, ecart_restant)
      else if py_less (Finite 0) ecart_restant then
        (if idx = 0
         then (py_add (Finite quantite_originale_lot) ecart_restant, ecart_restant, Finite 0)
         else (Finite quantite_originale_lot, Finite 0, ecart_restant))
      else
        (if py_le (Finite quantite_originale_lot) (py_abs ecart_restant)
         then (Finite 0, Finite (- quantite_originale_lot),
               py_add ecart_restant (Finite quantite_originale_lot))
         else (py_add (Finite quantite_originale_lot) ecart_restant, ecart_restant,
               Finite 0)))"

fun distribute_loop :: "pyfloat \<Rightarrow> nat \<Rightarrow> pyfloat \<Rightarrow> row list \<Rightarrow> row list \<times> pyfloat" where
  "distribute_loop saisie idx ecart_restant [] = ([], ecart_restant)"
| "distribute_loop saisie idx ecart_restant (lot_row # lots) =
     (case allocate idx ecart_restant (QUANTITE_ORIGINALE lot_row) of
        (quantite_corrigee, ajustement_lot, ecart_restant') \<Rightarrow>
          (case distribute_loop saisie (Suc idx) ecart_restant' lots of
             (distributed_rows, final) \<Rightarrow>
               (lot_row\<lparr>AJUSTEMENT := ajustement_lot,
                        QUANTITE_CORRIGEE := quantite_corrigee,
                        QUANTITE_REELLE_SAISIE := Some saisie\<rparr> # distributed_rows,
                final)))"

text \<open>
  The body of the loop over groups. \<^verbatim>\<open>groupby\<close> never yields an empty group, so
  \<^verbatim>\<open>.iloc[0]\<close> is defined; the model takes the first row apart from the rest. The result
  is the list of distributed rows of the group and the delta left over after the last
  lot.
\<close>

definition ecart_total :: "row \<Rightarrow> row list \<Rightarrow> pyfloat" where
  "ecart_total first others =
     py_sub (QUANTITE_REELLE_SAISIE_TOTALE first)
       (Finite (sum_list (map QUANTITE_ORIGINALE (first # others))))"

definition distribute_group :: "string \<Rightarrow> row \<Rightarrow> row list \<Rightarrow> row list \<times> pyfloat" where
  "distribute_group strategy first others =
     distribute_loop (QUANTITE_REELLE_SAISIE_TOTALE first) 0 (ecart_total first others)
       (sorted_group strategy (first # others))"

text \<open>The check after the loop: a residual beyond the tolerance is logged as a warning
  and nothing else happens.\<close>

definition residual_warning :: "pyfloat \<Rightarrow> bool" where
  "residual_warning ecart_restant = py_less (Finite 0.01) (py_abs ecart_restant)"

text \<open>
  The loop over the groups of \<^verbatim>\<open>discrepancies_df.groupby([...])\<close>: the distributed rows of
  every group are appended to \<^verbatim>\<open>distributed_rows\<close>, and a group whose residual is beyond
  the tolerance adds a warning naming its article. The warning changes nothing else.
\<close>

fun distribute_groups :: "string \<Rightarrow> row list list \<Rightarrow> row list \<times> string list" where
  "distribute_groups strategy [] = ([], [])"
| "distribute_groups strategy ([] # groups) = distribute_groups strategy groups"
| "distribute_groups strategy ((first # others) # groups) =
     (case distribute_group strategy first others of
        (rows, ecart_restant) \<Rightarrow>
          (case distribute_groups strategy groups of
             (distributed_rows, warnings) \<Rightarrow>
               (rows @ distributed_rows,
                (if residual_warning ecart_restant then [CODE_ARTICLE first] else [])
                  @ warnings)))"

subsection \<open>The allocation policy in the words of the specification\<close>

text \<open>
  The specification speaks of groups whose counted quantity is a number. \<open>adjusted\<close> is
  a line with a given adjustment and corrected quantity, \<open>unchanged\<close> a line that keeps its
  original quantity. Both record the counted quantity of the group, as every distributed
  row does.
\<close>

definition adjusted :: "real \<Rightarrow> real \<Rightarrow> real \<Rightarrow> row \<Rightarrow> row" where
  "adjusted saisie ajustement corrigee r =
     r\<lparr>AJUSTEMENT := Finite ajustement, QUANTITE_CORRIGEE := Finite corrigee,
       QUANTITE_REELLE_SAISIE := Some (Finite saisie)\<rparr>"

definition unchanged :: "real \<Rightarrow> row \<Rightarrow> row" where
  "unchanged saisie r =
     r\<lparr>AJUSTEMENT := Finite 0, QUANTITE_CORRIGEE := Finite (QUANTITE_ORIGINALE r),
       QUANTITE_REELLE_SAISIE := Some (Finite saisie)\<rparr>"





text \<open>
  A shortfall drains the lines in policy order until it is exhausted: a line whose
  original quantity is at most the remaining shortfall is zeroed, the first line whose
  original quantity exceeds it absorbs the rest, and the lines after that are unchanged.
  Once nothing remains to be drained the lines are unchanged.
\<close>

fun spec_drain :: "real \<Rightarrow> real \<Rightarrow> row list \<Rightarrow> row list" where
  "spec_drain saisie shortfall [] = []"
| "spec_drain saisie shortfall (l # ls) =
     (if shortfall = 0 then unchanged saisie l # spec_drain saisie 0 ls
      else if QUANTITE_ORIGINALE l \<le> shortfall
      then adjusted saisie (- QUANTITE_ORIGINALE l) 0 l
             # spec_drain saisie (shortfall - QUANTITE_ORIGINALE l) ls
      else adjusted saisie (- shortfall) (QUANTITE_ORIGINALE l - shortfall) l
             # map (unchanged saisie) ls)"

text \<open>The same without the test for an exhausted shortfall; on stock lines whose
  quantities are not negative the two agree (\<open>spec_drain_unguarded_eq\<close> below).\<close>

fun spec_drain_unguarded :: "real \<Rightarrow> real \<Rightarrow> row list \<Rightarrow> row list" where
  "spec_drain_unguarded saisie shortfall [] = []"
| "spec_drain_unguarded saisie shortfall (l # ls) =
     (if QUANTITE_ORIGINALE l \<le> shortfall
      then adjusted saisie (- QUANTITE_ORIGINALE l) 0 l
             # spec_drain_unguarded saisie (shortfall - QUANTITE_ORIGINALE l) ls
      else adjusted saisie (- shortfall) (QUANTITE_ORIGINALE l - shortfall) l
             # map (unchanged saisie) ls)"

subsection \<open>Example stock lines\<close>

text \<open>A discrepancy row of article ART001 in inventory INV001, as
  \<^verbatim>\<open>_calculate_discrepancies\<close> builds it: adjustment 0, corrected quantity equal to the
  original one, the counted quantity of the article on every line.\<close>

definition lot_line :: "string \<Rightarrow> date option \<Rightarrow> real \<Rightarrow> real \<Rightarrow> row" where
  "lot_line lot d qty counted =
     \<lparr>CODE_ARTICLE = ''ART001'', NUMERO_INVENTAIRE = ''INV001'', NUMERO_LOT = lot,
      TYPE_LOT = ''unknown'', QUANTITE_ORIGINALE = qty,
      QUANTITE_REELLE_SAISIE_TOTALE = Finite counted, AJUSTEMENT = Finite 0,
      QUANTITE_CORRIGEE = Finite qty,
      Date_Lot = d, STATUT = ''A'', UNITE = ''UN'', ZONE_PK = ''Z1'', EMPLACEMENT = ''E1'',
      QUANTITE_REELLE_SAISIE = None, reference_line = None, is_new_lotecart = None,
      is_existing_update = None\<rparr>"
section \<open>Lot classifier: \<^verbatim>\<open>FileProcessorService._extract_date_from_lot\<close>\<close>

text \<open>
  \<^verbatim>\<open>str.strip()\<close> removes the white space at both ends. Strings are modelled over 8-bit
  characters (code points 0 to 255), where Python's white space is TAB, LF, VT, FF, CR,
  FS, GS, RS, US, the space, NEL (U+0085) and the no-break space (U+00A0). \<^verbatim>\<open>float\<close> and
  \<^verbatim>\<open>int\<close> skip the same characters at both ends of their argument.
\<close>

definition is_space :: "char \<Rightarrow> bool" where
  "is_space c = (c \<in> set [CHR 0x09, CHR 0x0A, CHR 0x0B, CHR 0x0C, CHR 0x0D,
                            CHR 0x1C, CHR 0x1D, CHR 0x1E, CHR 0x1F, CHR 0x20,
                            CHR 0x85, CHR 0xA0])"

definition strip :: "string \<Rightarrow> string" where
  "strip s = rev (dropWhile is_space (rev (dropWhile is_space s)))"

text \<open>The character classes of the two lot patterns: \<^verbatim>\<open>\d\<close> and \<^verbatim>\<open>[A-Z0-9]\<close>.\<close>

definition is_digit :: "char \<Rightarrow> bool" where
  "is_digit c = (CHR ''0'' \<le> c \<and> c \<le> CHR ''9'')"

definition is_upper_alnum :: "char \<Rightarrow> bool" where
  "is_upper_alnum c = ((CHR ''A'' \<le> c \<and> c \<le> CHR ''Z'') \<or> is_digit c)"

text \<open>
  \<^verbatim>\<open>re.match(r"^([A-Z0-9]{5})(\d{6})([A-Z0-9]{4})$", lot_str)\<close> and
  \<^verbatim>\<open>re.match(r"^LOT(\d{6})$", lot_str)\<close>, the patterns the service uses unless the
  configuration overrides them. \<^verbatim>\<open>lot_str\<close> is stripped, so it has no final line feed and
  \<^verbatim>\<open>$\<close> is the end of the string. The result is the tuple of groups.
\<close>

definition type1_match :: "string \<Rightarrow> (string \<times> string \<times> string) option" where
  "type1_match lot_str =
     (if length lot_str = 15
         \<and> list_all is_upper_alnum (take 5 lot_str)
         \<and> list_all is_digit (take 6 (drop 5 lot_str))
         \<and> list_all is_upper_alnum (drop 11 lot_str)
      then Some (take 5 lot_str, take 6 (drop 5 lot_str), drop 11 lot_str)
      else None)"

definition type2_match :: "string \<Rightarrow> string option" where
  "type2_match lot_str =
     (if length lot_str = 9 \<and> take 3 lot_str = ''LOT'' \<and> list_all is_digit (drop 3 lot_str)
      then Some (drop 3 lot_str)
      else None)"

text \<open>\<^verbatim>\<open>int(s)\<close> on a string of decimal digits.\<close>

definition digit_value :: "char \<Rightarrow> nat" where
  "digit_value c = of_char c - of_char CHR ''0''"

definition int_of_digits :: "string \<Rightarrow> nat" where
  "int_of_digits s = foldl (\<lambda>n c. 10 * n + digit_value c) 0 s"

text \<open>
  \<^verbatim>\<open>datetime(year, month, day)\<close> raises \<^verbatim>\<open>ValueError\<close> unless the date exists in the
  Gregorian calendar (years 1 to 9999); \<open>None\<close> stands for the exception.
\<close>

definition is_leap :: "nat \<Rightarrow> bool" where
  "is_leap y = (y mod 4 = 0 \<and> (y mod 100 \<noteq> 0 \<or> y mod 400 = 0))"

definition days_in_month :: "nat \<Rightarrow> nat \<Rightarrow> nat" where
  "days_in_month y m =
     (if m = 2 then (if is_leap y then 29 else 28)
      else if m \<in> {4, 6, 9, 11} then 30 else 31)"

definition datetime :: "nat \<Rightarrow> nat \<Rightarrow> nat \<Rightarrow> date option" where
  "datetime y m d =
     (if 1 \<le> y \<and> y \<le> 9999 \<and> 1 \<le> m \<and> m \<le> 12 \<and> 1 \<le> d \<and> d \<le> days_in_month y m
      then Some (Date y m d) else None)"

text \<open>
  The classifier. \<open>PRIORITY1_SITE_CODES\<close> is the allow-list of site codes read from the
  configuration; a lot number that is missing (\<^verbatim>\<open>pd.isna\<close>) is \<open>None\<close>. The result is
  the pair (date, lot type).
\<close>

definition extract_date_from_lot :: "string set \<Rightarrow> string option \<Rightarrow> date option \<times> string" where
  "extract_date_from_lot PRIORITY1_SITE_CODES lot_number =
     (case lot_number of
        None \<Rightarrow> (None, ''unknown'')
      | Some lot \<Rightarrow>
          (let lot_str = strip lot in
           case type1_match lot_str of
             Some (site_code, date_part, suffix) \<Rightarrow>
               if site_code \<notin> PRIORITY1_SITE_CODES then (None, ''unknown'')
               else
                 (let day = int_of_digits (take 2 date_part);
                      month = int_of_digits (take 2 (drop 2 date_part));
                      year = int_of_digits (take 2 (drop 4 date_part)) + 2000
                  in if \<not> (1 \<le> day \<and> day \<le> 31 \<and> 1 \<le> month \<and> month \<le> 12)
                     then (None, ''type1'')
                     else (case datetime year month day of
                             Some d \<Rightarrow> (Some d, ''type1'')
                           | None \<Rightarrow> (None, ''type1'')))
           | None \<Rightarrow>
               (case type2_match lot_str of
                  Some date_part \<Rightarrow> (None, ''type2'')
                | None \<Rightarrow> (None, ''unknown''))))"


text \<open>The two identifier shapes in the words of the specification: a 5-character site
  code, a 6-digit date and a 4-character suffix; the literal prefix LOT and 6 digits.\<close>

definition type1_shape :: "string \<Rightarrow> string \<Rightarrow> string \<Rightarrow> bool" where
  "type1_shape site_code date_part suffix =
     (length site_code = 5 \<and> list_all is_upper_alnum site_code
      \<and> length date_part = 6 \<and> list_all is_digit date_part
      \<and> length suffix = 4 \<and> list_all is_upper_alnum suffix)"

definition type2_shape :: "string \<Rightarrow> bool" where
  "type2_shape date_part = (length date_part = 6 \<and> list_all is_digit date_part)"

text \<open>Day, month and year as the classifier reads them from the six digits DDMMYY.\<close>

definition lot_day :: "string \<Rightarrow> nat" where
  "lot_day date_part = int_of_digits (take 2 date_part)"

definition lot_month :: "string \<Rightarrow> nat" where
  "lot_month date_part = int_of_digits (take 2 (drop 2 date_part))"

definition lot_year :: "string \<Rightarrow> nat" where
  "lot_year date_part = int_of_digits (take 2 (drop 4 date_part)) + 2000"

section \<open>Numeric formatting: \<^verbatim>\<open>_format_number\<close> and \<^verbatim>\<open>_to_csv_number\<close>\<close>

subsection \<open>Python's \<^verbatim>\<open>float(s)\<close> on a string\<close>

text \<open>
  The accepted texts, after white space is stripped: an optional sign, then
  \<^verbatim>\<open>inf\<close>, \<^verbatim>\<open>infinity\<close> or \<^verbatim>\<open>nan\<close> in any case, or a decimal number
  \<^verbatim>\<open>[digitpart] "." digitpart | digitpart ["."]\<close> with an optional exponent
  \<^verbatim>\<open>("e" | "E") [sign] digitpart\<close>, where a \<^verbatim>\<open>digitpart\<close> is a run of digits that may
  be separated by single underscores. \<open>None\<close> stands for \<^verbatim>\<open>ValueError\<close>.
\<close>

fun digitpart_ok :: "string \<Rightarrow> bool" where
  "digitpart_ok [] = False"
| "digitpart_ok [c] = is_digit c"
| "digitpart_ok (c # d # r) =
     (is_digit c \<and> (if d = CHR ''_'' then digitpart_ok r else digitpart_ok (d # r)))"

definition digitpart_value :: "string \<Rightarrow> nat" where
  "digitpart_value s = int_of_digits (filter is_digit s)"

definition split_first :: "(char \<Rightarrow> bool) \<Rightarrow> string \<Rightarrow> string \<times> string option" where
  "split_first P s =
     (takeWhile (\<lambda>c. \<not> P c) s,
      case dropWhile (\<lambda>c. \<not> P c) s of [] \<Rightarrow> None | c # r \<Rightarrow> Some r)"

definition split_sign :: "string \<Rightarrow> bool \<times> string" where
  "split_sign s =
     (case s of
        [] \<Rightarrow> (False, s)
      | c # r \<Rightarrow> if c = CHR ''-'' then (True, r)
                 else if c = CHR ''+'' then (False, r) else (False, s))"

definition to_lower :: "char \<Rightarrow> char" where
  "to_lower c =
     (case map_of (zip ''ABCDEFGHIJKLMNOPQRSTUVWXYZ'' ''abcdefghijklmnopqrstuvwxyz'') c of
        Some l \<Rightarrow> l
      | None \<Rightarrow> c)"

definition mantissa :: "string \<Rightarrow> real option" where
  "mantissa s =
     (case split_first (\<lambda>c. c = CHR ''.'') s of
        (ip, None) \<Rightarrow> if digitpart_ok ip then Some (real (digitpart_value ip)) else None
      | (ip, Some fp) \<Rightarrow>
          if (ip = [] \<or> digitpart_ok ip) \<and> (fp = [] \<or> digitpart_ok fp)
             \<and> \<not> (ip = [] \<and> fp = [])
          then Some (real (digitpart_value ip)
                     + real (digitpart_value fp) / 10 ^ length (filter is_digit fp))
          else None)"

definition exponent :: "string option \<Rightarrow> int option" where
  "exponent e =
     (case e of
        None \<Rightarrow> Some 0
      | Some t \<Rightarrow>
          (case split_sign t of
             (neg, ds) \<Rightarrow>
               if digitpart_ok ds
               then Some (if neg then - int (digitpart_value ds) else int (digitpart_value ds))
               else None))"

definition scale10 :: "real \<Rightarrow> int \<Rightarrow> real" where
  "scale10 m e = (if 0 \<le> e then m * 10 ^ nat e else m / 10 ^ nat (- e))"

definition float_of_string :: "string \<Rightarrow> pyfloat option" where
  "float_of_string text =
     (case split_sign (strip text) of
        (neg, body) \<Rightarrow>
          if map to_lower body = ''inf'' \<or> map to_lower body = ''infinity'' then Some (Inf neg)
          else if map to_lower body = ''nan'' then Some NaN
          else
            (case split_first (\<lambda>c. c = CHR ''e'' \<or> c = CHR ''E'') body of
               (m, e) \<Rightarrow>
                 (case (mantissa m, exponent e) of
                    (Some q, Some k) \<Rightarrow>
                      Some (Finite (if neg then - scale10 q k else scale10 q k))
                  | _ \<Rightarrow> None)))"

subsection \<open>Fixed-point rendering \<^verbatim>\<open>f"{f:.6f}"\<close>\<close>

text \<open>\<^verbatim>\<open>str(n)\<close> for a natural number.\<close>

definition digit_char :: "nat \<Rightarrow> char" where
  "digit_char d = ''0123456789'' ! d"

function str_nat :: "nat \<Rightarrow> string" where
  "str_nat n = (if n < 10 then [digit_char n] else str_nat (n div 10) @ [digit_char (n mod 10)])"
  by pat_completeness auto
termination
  by (relation "measure (\<lambda>n. n)") auto

declare str_nat.simps [simp del]

text \<open>
  Rounding to the nearest integer, ties to even, which is how the exact value of the
  float is rounded to the requested number of decimals.
\<close>

definition round_half_even :: "real \<Rightarrow> nat" where
  "round_half_even x =
     (let f = nat \<lfloor>x\<rfloor>; r = x - real f
      in if r < 1/2 then f
         else if 1/2 < r then f + 1
         else if even f then f else f + 1)"

definition decimal_precision :: nat where
  "decimal_precision = 6"

definition zero_epsilon :: real where
  "zero_epsilon = 1 / 10 ^ 9"

text \<open>The sign is printed for every negative value, also when it rounds to zero.\<close>

definition format_fixed :: "nat \<Rightarrow> pyfloat \<Rightarrow> string" where
  "format_fixed p f =
     (case f of
        NaN \<Rightarrow> ''nan''
      | Inf neg \<Rightarrow> (if neg then ''-inf'' else ''inf'')
      | Finite q \<Rightarrow>
          (let n = round_half_even (\<bar>q\<bar> * 10 ^ p);
               frac = str_nat (n mod 10 ^ p)
           in (if q < 0 then ''-'' else '''')
              @ str_nat (n div 10 ^ p)
              @ (if p = 0 then '''' else ''.'' @ replicate (p - length frac) CHR ''0'' @ frac)))"

subsection \<open>The two formatting functions\<close>

definition rstrip_char :: "char \<Rightarrow> string \<Rightarrow> string" where
  "rstrip_char c s = rev (dropWhile (\<lambda>x. x = c) (rev s))"

definition replace_char :: "char \<Rightarrow> char \<Rightarrow> string \<Rightarrow> string" where
  "replace_char a b s = map (\<lambda>c. if c = a then b else c) s"

text \<open>
  The argument of \<^verbatim>\<open>_format_number\<close> is a number or a string. The method is the same in
  \<^verbatim>\<open>InventoryProcessor\<close> and in \<^verbatim>\<open>LotecartProcessor\<close>.
\<close>

datatype pyvalue = PyFloat pyfloat | PyStr string

definition strip_fixed :: "string \<Rightarrow> string" where
  "strip_fixed fmt =
     (let fmt' = (if CHR ''.'' \<in> set fmt
                  then rstrip_char CHR ''.'' (rstrip_char CHR ''0'' fmt) else fmt)
      in if fmt' \<noteq> '''' then fmt' else ''0'')"

definition format_number :: "pyvalue \<Rightarrow> string" where
  "format_number v =
     (case v of
        PyStr text \<Rightarrow>
          (let s = replace_char CHR '','' CHR ''.'' (strip text)
           in case float_of_string s of
                None \<Rightarrow> s
              | Some f \<Rightarrow> strip_fixed (format_fixed decimal_precision f))
      | PyFloat f \<Rightarrow> strip_fixed (format_fixed decimal_precision f))"

definition to_csv_number :: "pyvalue \<Rightarrow> string \<Rightarrow> string" where
  "to_csv_number v decimal_sep =
     (let s = format_number v
      in if decimal_sep = '','' then replace_char CHR ''.'' CHR '','' s else s)"

section \<open>Records of the stock file\<close>

subsection \<open>\<^verbatim>\<open>str.split\<close>, \<^verbatim>\<open>str.join\<close>, \<^verbatim>\<open>int\<close> and \<^verbatim>\<open>str\<close>\<close>

text \<open>\<^verbatim>\<open>line.split(";")\<close> always returns at least one field; \<^verbatim>\<open>";".join(parts)\<close> puts
  the separator between the fields.\<close>

fun split :: "char \<Rightarrow> string \<Rightarrow> string list" where
  "split sep [] = [[]]"
| "split sep (c # cs) =
     (if c = sep then [] # split sep cs
      else (case split sep cs of
              [] \<Rightarrow> [[c]]
            | p # ps \<Rightarrow> (c # p) # ps))"

fun join :: "char \<Rightarrow> string list \<Rightarrow> string" where
  "join sep [] = []"
| "join sep [p] = p"
| "join sep (p # q # ps) = p @ sep # join sep (q # ps)"

text \<open>
  \<^verbatim>\<open>int(s)\<close> on a string: white space around it is ignored, then an optional sign and
  decimal digits that may be separated by single underscores; \<open>None\<close> stands for
  \<^verbatim>\<open>ValueError\<close>. \<^verbatim>\<open>str(i)\<close> prints an integer in decimal.
\<close>

definition py_int :: "string \<Rightarrow> int option" where
  "py_int text =
     (case split_sign (strip text) of
        (neg, ds) \<Rightarrow>
          if digitpart_ok ds
          then Some (if neg then - int (digitpart_value ds) else int (digitpart_value ds))
          else None)"

definition str_int :: "int \<Rightarrow> string" where
  "str_int i = (if i < 0 then ''-'' @ str_nat (nat (- i)) else str_nat (nat i))"

subsection \<open>The tables\<close>

text \<open>
  A row of \<^verbatim>\<open>original_df\<close>, the parsed stock lines: the columns the processors read, with
  the line as it was in the file. The columns are texts, the quantity was converted to a
  number by the parser, the date and the type come from the lot classifier.
\<close>

record original_row =
  o_CODE_ARTICLE :: string
  o_NUMERO_INVENTAIRE :: string
  o_NUMERO_LOT :: string
  o_QUANTITE :: real
  o_Date_Lot :: "date option"
  o_Type_Lot :: string
  o_STATUT :: string
  o_UNITE :: string
  o_ZONE_PK :: string
  o_EMPLACEMENT :: string
  o_original_s_line_raw :: string

text \<open>
  A row of the completed template. A quantity cell of the spreadsheet holds a number, a
  text or nothing (a NaN in the table). The type of the quantities is a parameter: cells
  in the table as it is read, numbers once the quantities are cleaned. The location
  cell counts only when it is a text.
\<close>

datatype cell = Number real | Text string | Blank

record 'q completed_row =
  Code_Article :: string
  Numero_Inventaire :: string
  Quantite_Theorique :: 'q
  Quantite_Reelle :: 'q
  Emplacements :: "string option"

section \<open>Found stock: \<^verbatim>\<open>LotecartProcessor\<close>\<close>

subsection \<open>\<^verbatim>\<open>detect_lotecart_candidates\<close>\<close>

text \<open>
  The two quantity columns are made numeric: the cell is written as text, no-break
  spaces and spaces are removed, commas become points, \<^verbatim>\<open>pd.to_numeric\<close> with
  \<^verbatim>\<open>errors="coerce"\<close> reads the text and \<^verbatim>\<open>fillna(0)\<close> puts 0 where it could not. The
  reading of a text by pandas is the parameter \<open>to_numeric\<close> (\<open>None\<close> where pandas gives
  NaN). A number cell written as text reads back as itself; an empty cell is the text
  \<^verbatim>\<open>nan\<close>, which reads as NaN.
\<close>

definition clean_quantity :: "(string \<Rightarrow> real option) \<Rightarrow> cell \<Rightarrow> real" where
  "clean_quantity to_numeric c =
     (case c of
        Number q \<Rightarrow> q
      | Blank \<Rightarrow> 0
      | Text s \<Rightarrow>
          (case to_numeric
                  (replace_char CHR '','' CHR ''.''
                     (filter (\<lambda>x. x \<noteq> CHR '' '') (filter (\<lambda>x. x \<noteq> CHR 0xA0) s))) of
             Some q \<Rightarrow> q
           | None \<Rightarrow> 0))"

definition df_clean :: "(string \<Rightarrow> real option) \<Rightarrow> cell completed_row \<Rightarrow> real completed_row" where
  "df_clean to_numeric r =
     \<lparr>Code_Article = Code_Article r, Numero_Inventaire = Numero_Inventaire r,
      Quantite_Theorique = clean_quantity to_numeric (Quantite_Theorique r),
      Quantite_Reelle = clean_quantity to_numeric (Quantite_Reelle r),
      Emplacements = Emplacements r\<rparr>"

definition lotecart_mask :: "real completed_row \<Rightarrow> bool" where
  "lotecart_mask r = (Quantite_Theorique r = 0 \<and> Quantite_Reelle r > 0)"

definition detect_lotecart_candidates ::
    "(string \<Rightarrow> real option) \<Rightarrow> cell completed_row list \<Rightarrow> real completed_row list" where
  "detect_lotecart_candidates to_numeric completed_df =
     filter lotecart_mask (map (df_clean to_numeric) completed_df)"

subsection \<open>\<^verbatim>\<open>create_lotecart_adjustments\<close>\<close>

text \<open>
  An adjustment is a dictionary that becomes a row of \<^verbatim>\<open>distributed_df\<close>. The columns it
  does not have (status, unit, zone, location, counted total) are NaN in the table and
  are not read afterwards; the texts are empty here.
\<close>

definition lotecart_adjustment ::
    "string \<Rightarrow> string \<Rightarrow> string \<Rightarrow> real \<Rightarrow> date option \<Rightarrow> string option \<Rightarrow> bool \<Rightarrow> row" where
  "lotecart_adjustment code_article numero_inventaire numero_lot quantite_reelle date_lot
       reference is_new =
     \<lparr>CODE_ARTICLE = code_article, NUMERO_INVENTAIRE = numero_inventaire,
      NUMERO_LOT = numero_lot, TYPE_LOT = ''lotecart'', QUANTITE_ORIGINALE = 0,
      QUANTITE_REELLE_SAISIE_TOTALE = NaN, AJUSTEMENT = Finite quantite_reelle,
      QUANTITE_CORRIGEE = Finite quantite_reelle, Date_Lot = date_lot,
      STATUT = '''', UNITE = '''', ZONE_PK = '''', EMPLACEMENT = '''',
      QUANTITE_REELLE_SAISIE = None, reference_line = reference,
      is_new_lotecart = Some is_new, is_existing_update = Some (\<not> is_new)\<rparr>"

text \<open>
  For one candidate: the first stock line of the same article and inventory whose
  quantity is 0 is updated and keeps its lot; otherwise the first stock line of the
  article (and of the inventory, when the candidate has one) is the reference of a new
  line whose lot is LOTECART; otherwise there is no adjustment.
\<close>

definition candidate_adjustment :: "original_row list \<Rightarrow> real completed_row \<Rightarrow> row option" where
  "candidate_adjustment original_df candidate =
     (let code_article = Code_Article candidate;
          numero_inventaire = Numero_Inventaire candidate;
          quantite_reelle = Quantite_Reelle candidate
      in case filter (\<lambda>l. o_CODE_ARTICLE l = code_article
                          \<and> o_NUMERO_INVENTAIRE l = numero_inventaire
                          \<and> o_QUANTITE l = 0) original_df of
           existing_line # _ \<Rightarrow>
             Some (lotecart_adjustment code_article numero_inventaire
                     (o_NUMERO_LOT existing_line) quantite_reelle (o_Date_Lot existing_line)
                     None False)
         | [] \<Rightarrow>
             (case filter (\<lambda>l. o_CODE_ARTICLE l = code_article
                               \<and> (numero_inventaire = ''''
                                    \<or> o_NUMERO_INVENTAIRE l = numero_inventaire)) original_df of
                ref_lot # _ \<Rightarrow>
                  Some (lotecart_adjustment code_article numero_inventaire ''LOTECART''
                          quantite_reelle None (Some (o_original_s_line_raw ref_lot)) True)
              | [] \<Rightarrow> None))"

definition create_lotecart_adjustments ::
    "real completed_row list \<Rightarrow> original_row list \<Rightarrow> row list" where
  "create_lotecart_adjustments lotecart_candidates original_df =
     List.map_filter (candidate_adjustment original_df) lotecart_candidates"

subsection \<open>\<^verbatim>\<open>generate_lotecart_lines\<close>\<close>

text \<open>
  A flag column of the table holds a boolean, or NaN on the rows that have no such flag;
  Python takes NaN for true. The fields of the new line for one adjustment and the line
  number reached so far, or \<open>None\<close> when the adjustment is skipped: it is not a new
  found-stock line, it has no reference line, the reference line is empty or reads
  \<^verbatim>\<open>nan\<close> or \<^verbatim>\<open>none\<close>, or it has fewer than 15 fields.
\<close>

definition truthy :: "bool option \<Rightarrow> bool" where
  "truthy flag = (case flag of None \<Rightarrow> True | Some b \<Rightarrow> b)"

definition lotecart_line :: "int \<Rightarrow> row \<Rightarrow> string list option" where
  "lotecart_line current_line_number adjustment =
     (if \<not> truthy (is_new_lotecart adjustment) then None
      else case reference_line adjustment of
             None \<Rightarrow> None
           | Some reference \<Rightarrow>
               if reference = '''' then None
               else
                 (let reference_line_str = strip reference
                  in if reference_line_str = ''''
                        \<or> map to_lower reference_line_str \<in> {''nan'', ''none'', ''''}
                     then None
                     else
                       (let parts = split CHR '';'' reference_line_str
                        in if length parts < 15 then None
                           else
                             (let quantite_reelle = QUANTITE_CORRIGEE adjustment;
                                  quantite_reelle_saisie =
                                    (case QUANTITE_REELLE_SAISIE adjustment of
                                       Some q \<Rightarrow> q | None \<Rightarrow> quantite_reelle)
                              in Some (parts[
                                    3 := str_int (current_line_number + 1000),
                                    5 := format_number (PyFloat quantite_reelle),
                                    6 := format_number (PyFloat quantite_reelle_saisie),
                                    7 := ''2'',
                                    14 := ''LOTECART''])))))"

fun generate_lotecart_lines :: "row list \<Rightarrow> int \<Rightarrow> string list" where
  "generate_lotecart_lines [] current_line_number = []"
| "generate_lotecart_lines (adjustment # adjustments) current_line_number =
     (case lotecart_line current_line_number adjustment of
        None \<Rightarrow> generate_lotecart_lines adjustments current_line_number
      | Some new_parts \<Rightarrow>
          join CHR '';'' new_parts
            # generate_lotecart_lines adjustments (current_line_number + 1000))"


section \<open>Discrepancies and the table of distributed rows\<close>

subsection \<open>\<^verbatim>\<open>_calculate_discrepancies\<close>\<close>

text \<open>
  The counted quantity of an article in an inventory is the cell of the last template row
  with that key, and 0 when there is none. An empty cell is a NaN, and the table is built
  with it. A cell that holds a text is put in the table as it is, and the subtraction in
  \<^verbatim>\<open>distribute_discrepancies\<close> then raises \<^verbatim>\<open>TypeError\<close>: there is no table of
  distributed rows for such a template, and the model gives \<open>None\<close> for it here.
\<close>

definition real_quantities_dict ::
    "cell completed_row list \<Rightarrow> (string \<times> string \<rightharpoonup> cell)" where
  "real_quantities_dict completed_df =
     foldl (\<lambda>d r. d((Code_Article r, Numero_Inventaire r) \<mapsto> Quantite_Reelle r))
       Map.empty completed_df"

definition discrepancy_row :: "(string \<times> string \<rightharpoonup> cell) \<Rightarrow> original_row \<Rightarrow> row option" where
  "discrepancy_row quantities original_row =
     (case (case quantities (o_CODE_ARTICLE original_row, o_NUMERO_INVENTAIRE original_row) of
              None \<Rightarrow> Some (Finite 0)
            | Some (Number q) \<Rightarrow> Some (Finite q)
            | Some Blank \<Rightarrow> Some NaN
            | Some (Text t) \<Rightarrow> None) of
        None \<Rightarrow> None
      | Some quantite_reelle_saisie \<Rightarrow>
          Some \<lparr>CODE_ARTICLE = o_CODE_ARTICLE original_row,
                NUMERO_INVENTAIRE = o_NUMERO_INVENTAIRE original_row,
                NUMERO_LOT = strip (o_NUMERO_LOT original_row),
                TYPE_LOT = o_Type_Lot original_row,
                QUANTITE_ORIGINALE = o_QUANTITE original_row,
                QUANTITE_REELLE_SAISIE_TOTALE = quantite_reelle_saisie,
                AJUSTEMENT = Finite 0,
                QUANTITE_CORRIGEE = Finite (o_QUANTITE original_row),
                Date_Lot = o_Date_Lot original_row,
                STATUT = o_STATUT original_row, UNITE = o_UNITE original_row,
                ZONE_PK = o_ZONE_PK original_row, EMPLACEMENT = o_EMPLACEMENT original_row,
                QUANTITE_REELLE_SAISIE = None, reference_line = None,
                is_new_lotecart = None, is_existing_update = None\<rparr>)"

definition calculate_discrepancies ::
    "cell completed_row list \<Rightarrow> original_row list \<Rightarrow> row list option" where
  "calculate_discrepancies completed_df original_df =
     those (map (discrepancy_row (real_quantities_dict completed_df)) original_df)"

subsection \<open>\<^verbatim>\<open>distribute_discrepancies\<close>\<close>

text \<open>
  \<^verbatim>\<open>groupby(['CODE_ARTICLE', 'NUMERO_INVENTAIRE', 'STATUT', 'UNITE', 'ZONE_PK',
  'EMPLACEMENT'])\<close>: one group for every key, the keys in increasing order, the rows of
  a group in the order of the table.
\<close>

definition group_key :: "row \<Rightarrow> string \<times> string \<times> string \<times> string \<times> string \<times> string" where
  "group_key r =
     (CODE_ARTICLE r, NUMERO_INVENTAIRE r, STATUT r, UNITE r, ZONE_PK r, EMPLACEMENT r)"

definition groupby :: "row list \<Rightarrow> row list list" where
  "groupby df =
     map (\<lambda>k. filter (\<lambda>r. group_key r = k) df) (sort (remdups (map group_key df)))"

text \<open>
  The distributed rows of all groups, then the found-stock adjustments, each with its
  counted quantity put in \<^verbatim>\<open>QUANTITE_REELLE_SAISIE\<close>.
\<close>

definition distribute_discrepancies ::
    "string \<Rightarrow> row list \<Rightarrow> real completed_row list \<Rightarrow> original_row list \<Rightarrow> row list" where
  "distribute_discrepancies strategy discrepancies_df lotecart_candidates original_df =
     fst (distribute_groups strategy (groupby discrepancies_df))
       @ map (\<lambda>lotecart_adj.
                lotecart_adj\<lparr>QUANTITE_REELLE_SAISIE := Some (QUANTITE_CORRIGEE lotecart_adj)\<rparr>)
           (create_lotecart_adjustments lotecart_candidates original_df)"

section \<open>Record regenerator: \<^verbatim>\<open>InventoryProcessor.generate_final_file\<close>\<close>

text \<open>
  The dictionary of adjustments is keyed by article, inventory and stripped lot; a later
  row of the table replaces an earlier one with the same key.
\<close>

record adjustment_data =
  qte_theo_ajustee :: pyfloat
  qte_reelle_saisie :: pyfloat
  type_lot :: string

definition adjustment_key :: "row \<Rightarrow> string \<times> string \<times> string" where
  "adjustment_key r = (CODE_ARTICLE r, NUMERO_INVENTAIRE r, strip (NUMERO_LOT r))"

definition adjustment_of :: "row \<Rightarrow> adjustment_data" where
  "adjustment_of r =
     \<lparr>qte_theo_ajustee = QUANTITE_CORRIGEE r,
      qte_reelle_saisie =
        (case QUANTITE_REELLE_SAISIE r of Some q \<Rightarrow> q | None \<Rightarrow> QUANTITE_CORRIGEE r),
      type_lot = TYPE_LOT r\<rparr>"

definition adjustments_dict :: "row list \<Rightarrow> (string \<times> string \<times> string \<rightharpoonup> adjustment_data)" where
  "adjustments_dict distributed_df =
     foldl (\<lambda>d r. d(adjustment_key r \<mapsto> adjustment_of r)) Map.empty distributed_df"

text \<open>The key under which an original line looks its adjustment up, and the count
  indicator of a corrected quantity: 2 when it is within \<open>zero_epsilon\<close> of zero, 1
  otherwise, also when it is a NaN.\<close>

definition original_key :: "original_row \<Rightarrow> string \<times> string \<times> string" where
  "original_key original_row =
     (o_CODE_ARTICLE original_row, o_NUMERO_INVENTAIRE original_row,
      strip (o_NUMERO_LOT original_row))"

definition count_indicator :: "pyfloat \<Rightarrow> string" where
  "count_indicator qte_val =
     (if py_less (py_abs qte_val) (Finite zero_epsilon) then ''2'' else ''1'')"

text \<open>The locations edited in the template, by article and inventory.\<close>

definition emplacement_updates :: "'q completed_row list \<Rightarrow> (string \<times> string \<rightharpoonup> string)" where
  "emplacement_updates completed_df =
     foldl (\<lambda>d r. case Emplacements r of
                     Some new_emplacement \<Rightarrow>
                       if Code_Article r \<noteq> '''' \<and> Numero_Inventaire r \<noteq> ''''
                          \<and> strip new_emplacement \<noteq> ''''
                       then d((Code_Article r, Numero_Inventaire r) \<mapsto> strip new_emplacement)
                       else d
                   | None \<Rightarrow> d)
       Map.empty completed_df"

text \<open>
  The fields written for one original line, or \<open>None\<close> for a line of fewer than 15
  fields, which is not written. Field 5 keeps the original quantity.
\<close>

definition replay_parts ::
    "(string \<times> string \<times> string \<rightharpoonup> adjustment_data) \<Rightarrow> (string \<times> string \<rightharpoonup> string)
       \<Rightarrow> original_row \<Rightarrow> string list option" where
  "replay_parts adjustments emplacements original_row =
     (let parts = split CHR '';'' (o_original_s_line_raw original_row)
      in if length parts \<ge> 15 then
           (let quantite_originale = parts ! 5;
                adjusted =
                  (case adjustments (original_key original_row) of
                     Some adjustment_data \<Rightarrow>
                       (let with_quantity = parts[
                              5 := quantite_originale,
                              6 := to_csv_number
                                     (PyFloat (qte_theo_ajustee adjustment_data)) '','',
                              7 := count_indicator (qte_theo_ajustee adjustment_data)]
                        in if map to_lower (type_lot adjustment_data) = ''lotecart''
                           then with_quantity[14 := ''LOTECART'']
                           else with_quantity)
                   | None \<Rightarrow>
                       parts[5 := quantite_originale, 6 := quantite_originale, 7 := ''1''])
            in Some (case emplacements
                            (o_CODE_ARTICLE original_row, o_NUMERO_INVENTAIRE original_row) of
                       Some new_emplacement \<Rightarrow> adjusted[9 := new_emplacement]
                     | None \<Rightarrow> adjusted))
         else None)"

text \<open>The largest line number among the original lines of at least 15 fields whose
  field 3 reads as an integer, and 0 when there is none or all are negative.\<close>

definition update_max_line_number :: "int \<Rightarrow> original_row \<Rightarrow> int" where
  "update_max_line_number m original_row =
     (let parts = split CHR '';'' (o_original_s_line_raw original_row)
      in if length parts \<ge> 15
         then (case py_int (parts ! 3) of
                 Some line_number \<Rightarrow> max m line_number
               | None \<Rightarrow> m)
         else m)"

definition max_line_number :: "original_row list \<Rightarrow> int" where
  "max_line_number original_df = foldl update_max_line_number 0 original_df"

text \<open>
  A line made by \<^verbatim>\<open>generate_lotecart_lines\<close> is adapted before it is written: field 5
  becomes 0 and field 6 the quantity found, with the comma as decimal separator.
\<close>

definition adapt_lotecart_line :: "string \<Rightarrow> string" where
  "adapt_lotecart_line line =
     (let parts = split CHR '';'' line
      in if length parts \<ge> 15
         then (let qte_lotecart = parts ! 5
               in join CHR '';''
                    (parts[5 := ''0'', 6 := replace_char CHR ''.'' CHR '','' qte_lotecart]))
         else line)"

definition new_lotecart_lines :: "row list \<Rightarrow> original_row list \<Rightarrow> string list" where
  "new_lotecart_lines distributed_df original_df =
     map adapt_lotecart_line
       (generate_lotecart_lines
          (filter (\<lambda>adj. truthy (is_new_lotecart adj) \<and> \<not> truthy (is_existing_update adj))
             distributed_df)
          (max_line_number original_df))"

text \<open>The lines of the final file: the headers, the original lines replayed, the new
  found-stock lines.\<close>

definition generate_final_file ::
    "string list \<Rightarrow> row list \<Rightarrow> original_row list \<Rightarrow> 'q completed_row list \<Rightarrow> string list" where
  "generate_final_file header_lines distributed_df original_df completed_df =
     header_lines
       @ List.map_filter
           (\<lambda>original_row.
              map_option (join CHR '';'')
                (replay_parts (adjustments_dict distributed_df)
                   (emplacement_updates completed_df) original_row))
           original_df
       @ new_lotecart_lines distributed_df original_df"

section \<open>Example stock file\<close>

text \<open>
  A stock line of article ART001 in inventory INV001 with the given line number, quantity
  (as written in the file and as a number), lot and lot date; and a template row for the
  article with the given theoretical and counted quantities.
\<close>

definition stock_raw :: "string \<Rightarrow> string \<Rightarrow> string \<Rightarrow> string \<Rightarrow> string" where
  "stock_raw rang quantite lot emplacement =
     join CHR '';'' [''S'', ''SES001'', ''INV001'', rang, ''FR01'', quantite, ''0'', ''1'',
                    ''ART001'', emplacement, ''A'', ''UN'', ''0'', ''Z1'', lot]"

definition stock_line ::
    "string \<Rightarrow> string \<Rightarrow> real \<Rightarrow> string \<Rightarrow> date option \<Rightarrow> string \<Rightarrow> original_row" where
  "stock_line rang quantite q lot d emplacement =
     \<lparr>o_CODE_ARTICLE = ''ART001'', o_NUMERO_INVENTAIRE = ''INV001'', o_NUMERO_LOT = lot,
      o_QUANTITE = q, o_Date_Lot = d, o_Type_Lot = ''unknown'', o_STATUT = ''A'',
      o_UNITE = ''UN'', o_ZONE_PK = ''Z1'', o_EMPLACEMENT = emplacement,
      o_original_s_line_raw = stock_raw rang quantite lot emplacement\<rparr>"

definition template_row :: "cell \<Rightarrow> cell \<Rightarrow> cell completed_row" where
  "template_row theorique reelle =
     \<lparr>Code_Article = ''ART001'', Numero_Inventaire = ''INV001'',
      Quantite_Theorique = theorique, Quantite_Reelle = reelle, Emplacements = None\<rparr>"

text \<open>The reading of texts used in the examples: Python's reading of a finite number.\<close>

definition finite_number :: "string \<Rightarrow> real option" where
  "finite_number s = (case float_of_string s of Some (Finite q) \<Rightarrow> Some q | _ \<Rightarrow> None)"

text \<open>The adjustment for a new found-stock line of quantity \<open>q\<close> whose reference is the
  stock line 1000 of lot LOTA, as it stands in the table of distributed rows.\<close>

definition found_stock :: "real \<Rightarrow> row" where
  "found_stock q =
     (lotecart_adjustment ''ART001'' ''INV001'' ''LOTECART'' q None
        (Some (stock_raw ''1000'' ''10'' ''LOTA'' ''E1'')) True)
       \<lparr>QUANTITE_REELLE_SAISIE := Some (Finite q)\<rparr>"

text \<open>Three stock lines of the article: lots LOTA and LOTB at location E1 and lot LOTA
  again at location E2.\<close>

definition two_locations :: "original_row list" where
  "two_locations =
     [stock_line ''1000'' ''10'' 10 ''LOTA'' None ''E1'',
      stock_line ''2000'' ''5'' 5 ''LOTB'' None ''E1'',
      stock_line ''3000'' ''5'' 5 ''LOTA'' None ''E2'']"


section \<open>Properties of the distribution engine\<close>

subsection \<open>The order of the lots\<close>











subsection \<open>The stable sort\<close>

lemma set_insert_stable: "set (insert_stable before x ys) = insert x (set ys)"
  by (induction ys) auto

lemma set_sort_stable: "set (sort_stable before xs) = set xs"
  by (induction xs) (simp_all add: set_insert_stable)

lemma set_sorted_group: "set (sorted_group strategy grp) = set grp"
  by (simp add: sorted_group_def set_sort_stable)
















subsection \<open>The allocation loop on a counted quantity that is a number\<close>

lemma distribute_loop_Cons:
  "distribute_loop s idx e (l # ls) =
     (l\<lparr>AJUSTEMENT := fst (snd (allocate idx e (QUANTITE_ORIGINALE l))),
        QUANTITE_CORRIGEE := fst (allocate idx e (QUANTITE_ORIGINALE l)),
        QUANTITE_REELLE_SAISIE := Some s\<rparr>
        # fst (distribute_loop s (Suc idx)
                 (snd (snd (allocate idx e (QUANTITE_ORIGINALE l)))) ls),
      snd (distribute_loop s (Suc idx)
                 (snd (snd (allocate idx e (QUANTITE_ORIGINALE l)))) ls))"
  by (simp split: prod.splits)

lemma adjusted_sel [simp]:
  "AJUSTEMENT (adjusted s a c r) = Finite a"
  "QUANTITE_CORRIGEE (adjusted s a c r) = Finite c"
  "QUANTITE_ORIGINALE (adjusted s a c r) = QUANTITE_ORIGINALE r"
  "QUANTITE_REELLE_SAISIE (adjusted s a c r) = Some (Finite s)"
  "NUMERO_LOT (adjusted s a c r) = NUMERO_LOT r"
  "Date_Lot (adjusted s a c r) = Date_Lot r"
  by (simp_all add: adjusted_def)

lemma unchanged_adjusted: "unchanged s r = adjusted s 0 (QUANTITE_ORIGINALE r) r"
  by (simp add: unchanged_def adjusted_def)

lemma allocate_Finite:
  "allocate idx (Finite e) q =
     (if e = 0 then (Finite q, Finite 0, Finite e)
      else if e > 0 then
        (if idx = 0 then (Finite (q + e), Finite e, Finite 0) else (Finite q, Finite 0, Finite e))
      else
        (if \<bar>e\<bar> \<ge> q then (Finite 0, Finite (- q), Finite (e + q))
         else (Finite (q + e), Finite e, Finite 0)))"
  by (simp add: allocate_def)

lemma allocate_Finite_ex:
  "\<exists>c b e'. allocate idx (Finite e) q = (Finite c, Finite b, Finite e') \<and> b + e' = e
      \<and> (0 \<le> q \<longrightarrow> 0 \<le> c)"
  by (simp add: allocate_Finite)



lemma spec_drain_zero: "spec_drain s 0 ls = map (unchanged s) ls"
  by (induction ls) auto




subsection \<open>The allocation loop on a counted quantity that is missing\<close>


subsection \<open>No negative corrected quantity\<close>

lemma allocate_not_negative:
  "0 \<le> q \<Longrightarrow> \<not> py_less (fst (allocate idx e q)) (Finite 0)"
  by (cases e) (simp_all add: allocate_def)

lemma distribute_loop_not_negative:
  "\<forall>r \<in> set lots. 0 \<le> QUANTITE_ORIGINALE r \<Longrightarrow>
   \<forall>r \<in> set (fst (distribute_loop s idx e lots)). \<not> py_less (QUANTITE_CORRIGEE r) (Finite 0)"
proof (induction lots arbitrary: idx e)
  case Nil
  show ?case by simp
next
  case (Cons l ls)
  from Cons.prems have "0 \<le> QUANTITE_ORIGINALE l" by simp
  then have "\<not> py_less (fst (allocate idx e (QUANTITE_ORIGINALE l))) (Finite 0)"
    by (rule allocate_not_negative)
  moreover from Cons.prems have "\<forall>r \<in> set ls. 0 \<le> QUANTITE_ORIGINALE r" by simp
  then have "\<forall>r \<in> set (fst (distribute_loop s (Suc idx)
       (snd (snd (allocate idx e (QUANTITE_ORIGINALE l)))) ls)).
         \<not> py_less (QUANTITE_CORRIGEE r) (Finite 0)"
    by (rule Cons.IH)
  ultimately show ?case unfolding distribute_loop_Cons by simp
qed

lemma distribute_loop_nonneg:
  "\<forall>r \<in> set lots. 0 \<le> QUANTITE_ORIGINALE r \<Longrightarrow>
   \<forall>r \<in> set (fst (distribute_loop (Finite s) idx (Finite e) lots)).
      \<exists>q. QUANTITE_CORRIGEE r = Finite q \<and> 0 \<le> q"
proof (induction lots arbitrary: idx e)
  case Nil
  show ?case by simp
next
  case (Cons l ls)
  from Cons.prems have q: "0 \<le> QUANTITE_ORIGINALE l" by simp
  obtain c b e' where al: "allocate idx (Finite e) (QUANTITE_ORIGINALE l)
      = (Finite c, Finite b, Finite e')" and c: "0 \<le> QUANTITE_ORIGINALE l \<longrightarrow> 0 \<le> c"
    using allocate_Finite_ex [of idx e "QUANTITE_ORIGINALE l"] by blast
  from Cons.prems have "\<forall>r \<in> set ls. 0 \<le> QUANTITE_ORIGINALE r" by simp
  then have "\<forall>r \<in> set (fst (distribute_loop (Finite s) (Suc idx) (Finite e') ls)).
      \<exists>q. QUANTITE_CORRIGEE r = Finite q \<and> 0 \<le> q"
    by (rule Cons.IH)
  with q c show ?case unfolding distribute_loop_Cons al by simp
qed

text \<open>
  C5 (as amended). The loop never clamps a quantity: a line keeps a negative original
  quantity when nothing is left to distribute, and a surplus smaller than the deficit of
  the first line leaves it negative. What holds is: in a group whose lines all have a
  non-negative original quantity, no distributed line has a negative corrected quantity,
  whatever the counted quantity and the strategy; when the counted quantity is a number,
  every corrected quantity is a number that is not negative.
\<close>

theorem corrected_nonneg:
  "\<forall>r \<in> set (first # others). 0 \<le> QUANTITE_ORIGINALE r \<Longrightarrow>
   (\<forall>r \<in> set (fst (distribute_group strategy first others)).
       \<not> py_less (QUANTITE_CORRIGEE r) (Finite 0))
   \<and> (QUANTITE_REELLE_SAISIE_TOTALE first = Finite c \<longrightarrow>
       (\<forall>r \<in> set (fst (distribute_group strategy first others)).
           \<exists>q. QUANTITE_CORRIGEE r = Finite q \<and> 0 \<le> q))"
proof (intro conjI impI)
  assume h: "\<forall>r \<in> set (first # others). 0 \<le> QUANTITE_ORIGINALE r"
  then have s: "\<forall>r \<in> set (sorted_group strategy (first # others)). 0 \<le> QUANTITE_ORIGINALE r"
    by (simp only: set_sorted_group)
  then show "\<forall>r \<in> set (fst (distribute_group strategy first others)).
       \<not> py_less (QUANTITE_CORRIGEE r) (Finite 0)"
    unfolding distribute_group_def by (rule distribute_loop_not_negative)
  assume "QUANTITE_REELLE_SAISIE_TOTALE first = Finite c"
  then have "ecart_total first others
      = Finite (c - sum_list (map QUANTITE_ORIGINALE (first # others)))"
    by (simp add: ecart_total_def py_sub_def)
  with \<open>QUANTITE_REELLE_SAISIE_TOTALE first = Finite c\<close> distribute_loop_nonneg [OF s]
  show "\<forall>r \<in> set (fst (distribute_group strategy first others)).
           \<exists>q. QUANTITE_CORRIGEE r = Finite q \<and> 0 \<le> q"
    unfolding distribute_group_def by simp
qed

text \<open>
  C5 as stated fails: article ART001 with the stock lines LOTA = -5 and LOTB = 3 and a
  counted quantity of 0 has delta 2, which FIFO adds to LOTA, whose corrected quantity
  is -3.
\<close>

theorem corrected_negative_counterexample:
  "\<not> (\<forall>r \<in> set (fst (distribute_group ''FIFO'' (lot_line ''LOTA'' None (-5) 0)
                          [lot_line ''LOTB'' None 3 0])).
         \<not> py_less (QUANTITE_CORRIGEE r) (Finite 0))
   \<and> map (\<lambda>r. (NUMERO_LOT r, QUANTITE_CORRIGEE r))
        (fst (distribute_group ''FIFO'' (lot_line ''LOTA'' None (-5) 0)
                [lot_line ''LOTB'' None 3 0]))
      = [(''LOTA'', Finite (-3)), (''LOTB'', Finite 3)]"
  by (simp add: distribute_group_def sorted_group_def fifo_before_def lot_line_def
        ecart_total_def py_sub_def allocate_Finite)

theorem corrected_nonneg_witness:
  "map QUANTITE_ORIGINALE [lot_line ''LOTA'' None 10 8, lot_line ''LOTB'' None 5 8] = [10, 5]
   \<and> list_all (\<lambda>r. \<not> py_less (QUANTITE_CORRIGEE r) (Finite 0))
        (fst (distribute_group ''FIFO'' (lot_line ''LOTA'' None 10 8)
           [lot_line ''LOTB'' None 5 8]))
   \<and> list_all (\<lambda>r. \<exists>q. QUANTITE_CORRIGEE r = Finite q \<and> 0 \<le> q)
        (fst (distribute_group ''FIFO'' (lot_line ''LOTA'' None 10 8)
           [lot_line ''LOTB'' None 5 8]))
   \<and> map QUANTITE_CORRIGEE
        (fst (distribute_group ''FIFO'' (lot_line ''LOTA'' None 10 8)
           [lot_line ''LOTB'' None 5 8])) = [Finite 3, Finite 5]"
proof -
  have h: "\<forall>r \<in> set (lot_line ''LOTA'' None 10 8 # [lot_line ''LOTB'' None 5 8]).
       0 \<le> QUANTITE_ORIGINALE r"
    by (simp add: lot_line_def)
  have c: "QUANTITE_REELLE_SAISIE_TOTALE (lot_line ''LOTA'' None 10 8) = Finite 8"
    by (simp add: lot_line_def)
  have "list_all (\<lambda>r. \<not> py_less (QUANTITE_CORRIGEE r) (Finite 0))
        (fst (distribute_group ''FIFO'' (lot_line ''LOTA'' None 10 8)
           [lot_line ''LOTB'' None 5 8]))"
    using corrected_nonneg [OF h, of "''FIFO''" 8, THEN conjunct1]
    by (simp only: list_all_iff)
  moreover have "list_all (\<lambda>r. \<exists>q. QUANTITE_CORRIGEE r = Finite q \<and> 0 \<le> q)
        (fst (distribute_group ''FIFO'' (lot_line ''LOTA'' None 10 8)
           [lot_line ''LOTB'' None 5 8]))"
    using corrected_nonneg [OF h, of "''FIFO''" 8, THEN conjunct2, THEN mp, OF c]
    by (simp only: list_all_iff)
  moreover have "map QUANTITE_CORRIGEE
        (fst (distribute_group ''FIFO'' (lot_line ''LOTA'' None 10 8)
           [lot_line ''LOTB'' None 5 8])) = [Finite 3, Finite 5]"
    by (simp add: distribute_group_def sorted_group_def fifo_before_def lot_line_def
          ecart_total_def py_sub_def allocate_Finite)
  ultimately show ?thesis by (simp add: lot_line_def)
qed

lemma spec_drain_unguarded_eq:
  "0 \<le> shortfall \<Longrightarrow> \<forall>r \<in> set ls. 0 \<le> QUANTITE_ORIGINALE r \<Longrightarrow>
   spec_drain saisie shortfall ls = spec_drain_unguarded saisie shortfall ls"
proof (induction ls arbitrary: shortfall)
  case Nil
  show ?case by simp
next
  case (Cons l ls)
  from Cons.prems have q: "0 \<le> QUANTITE_ORIGINALE l"
    and rest: "\<forall>r \<in> set ls. 0 \<le> QUANTITE_ORIGINALE r" by simp_all
  show ?case
  proof (cases "QUANTITE_ORIGINALE l \<le> shortfall")
    case True
    then have "0 \<le> shortfall - QUANTITE_ORIGINALE l" by simp
    from Cons.IH [OF this rest] have ih: "spec_drain saisie (shortfall - QUANTITE_ORIGINALE l) ls
        = spec_drain_unguarded saisie (shortfall - QUANTITE_ORIGINALE l) ls" .
    show ?thesis
    proof (cases "shortfall = 0")
      case z: True
      with True q have q0: "QUANTITE_ORIGINALE l = 0" by simp
      from ih z q0 have "spec_drain saisie 0 ls = spec_drain_unguarded saisie 0 ls" by simp
      with z q0 show ?thesis by (simp add: unchanged_adjusted)
    next
      case False
      with True ih show ?thesis by simp
    qed
  next
    case False
    with Cons.prems(1) have "shortfall \<noteq> 0 \<or> shortfall = 0" by simp
    from False q have "shortfall = 0 \<Longrightarrow> ?thesis"
      by (simp add: spec_drain_zero unchanged_adjusted)
    moreover from False have "shortfall \<noteq> 0 \<Longrightarrow> ?thesis" by simp
    ultimately show ?thesis by blast
  qed
qed

subsection \<open>The allocation policy\<close>



subsection \<open>The adjustments and the delta\<close>






section \<open>Properties of the lot classifier\<close>

lemma digit_not_space: "is_digit c \<Longrightarrow> \<not> is_space c"
  by (auto simp: is_digit_def is_space_def)

lemma upper_alnum_not_space: "is_upper_alnum c \<Longrightarrow> \<not> is_space c"
  by (auto simp: is_upper_alnum_def is_digit_def is_space_def)

lemma strip_id:
  assumes "s \<noteq> []" "\<not> is_space (hd s)" "\<not> is_space (last s)"
  shows "strip s = s"
proof -
  from assms have a: "dropWhile is_space s = s" by (cases s) auto
  from assms have "rev s \<noteq> []" "\<not> is_space (hd (rev s))" by (simp_all add: hd_rev)
  then have "dropWhile is_space (rev s) = rev s" by (cases "rev s") auto
  with a show ?thesis by (simp add: strip_def)
qed

lemma strip_type1:
  assumes "type1_shape site_code date_part suffix"
  shows "strip (site_code @ date_part @ suffix) = site_code @ date_part @ suffix"
proof (rule strip_id)
  from assms have ne: "site_code \<noteq> []" "suffix \<noteq> []" by (auto simp: type1_shape_def)
  then show "site_code @ date_part @ suffix \<noteq> []" by simp
  from assms ne have "is_upper_alnum (hd site_code)" "is_upper_alnum (last suffix)"
    by (auto simp: type1_shape_def list_all_iff)
  with ne show "\<not> is_space (hd (site_code @ date_part @ suffix))"
      "\<not> is_space (last (site_code @ date_part @ suffix))"
    by (simp_all add: upper_alnum_not_space)
qed

lemma strip_type2:
  assumes "type2_shape date_part"
  shows "strip (''LOT'' @ date_part) = ''LOT'' @ date_part"
proof (rule strip_id)
  show "''LOT'' @ date_part \<noteq> []" by simp
  show "\<not> is_space (hd (''LOT'' @ date_part))" by (simp add: is_space_def)
  from assms have ne: "date_part \<noteq> []" by (auto simp: type2_shape_def)
  with assms have "is_digit (last date_part)" by (auto simp: type2_shape_def list_all_iff)
  with ne show "\<not> is_space (last (''LOT'' @ date_part))" by (simp add: digit_not_space)
qed

lemma type1_match_shape:
  "type1_shape site_code date_part suffix \<Longrightarrow>
   type1_match (site_code @ date_part @ suffix) = Some (site_code, date_part, suffix)"
  by (simp add: type1_shape_def type1_match_def)

lemma type1_match_Some:
  "type1_match s = Some (a, b, c) \<Longrightarrow> s = a @ b @ c \<and> type1_shape a b c"
proof -
  assume m: "type1_match s = Some (a, b, c)"
  then have l: "length s = 15" and a: "a = take 5 s" and b: "b = take 6 (drop 5 s)"
    and c: "c = drop 11 s"
    and cls: "list_all is_upper_alnum (take 5 s)" "list_all is_digit (take 6 (drop 5 s))"
      "list_all is_upper_alnum (drop 11 s)"
    by (auto simp: type1_match_def split: if_splits)
  have "take 6 (drop 5 s) @ drop 11 s = drop 5 s"
    using append_take_drop_id [of 6 "drop 5 s"] by simp
  then have "s = a @ b @ c" using a b c append_take_drop_id [of 5 s] by simp
  moreover from l a b c cls have "type1_shape a b c" by (simp add: type1_shape_def)
  ultimately show ?thesis by blast
qed

lemma type2_match_shape:
  "type2_shape date_part \<Longrightarrow> type2_match (''LOT'' @ date_part) = Some date_part"
  by (simp add: type2_shape_def type2_match_def)

lemma type2_match_Some:
  "type2_match s = Some b \<Longrightarrow> s = ''LOT'' @ b \<and> type2_shape b"
proof -
  assume m: "type2_match s = Some b"
  then have l: "length s = 9" and p: "take 3 s = ''LOT''" and b: "b = drop 3 s"
    and d: "list_all is_digit (drop 3 s)"
    by (auto simp: type2_match_def split: if_splits)
  from p b have "s = ''LOT'' @ b" using append_take_drop_id [of 3 s] by simp
  moreover from l b d have "type2_shape b" by (simp add: type2_shape_def)
  ultimately show ?thesis by blast
qed

lemma type1_not_type2:
  "type1_shape site_code date_part suffix \<Longrightarrow> type2_match (site_code @ date_part @ suffix) = None"
  by (simp add: type1_shape_def type2_match_def)

lemma type2_not_type1:
  "type2_shape date_part \<Longrightarrow> type1_match (''LOT'' @ date_part) = None"
  by (simp add: type2_shape_def type1_match_def)

lemma datetime_None_late: "31 < d \<or> 12 < m \<Longrightarrow> datetime y m d = None"
  by (auto simp: datetime_def days_in_month_def)

lemma extract_type1:
  assumes "strip lot = site_code @ date_part @ suffix"
    and "type1_shape site_code date_part suffix"
  shows "extract_date_from_lot codes (Some lot) =
     (if site_code \<notin> codes then (None, ''unknown'')
      else if \<not> (1 \<le> lot_day date_part \<and> lot_day date_part \<le> 31
                 \<and> 1 \<le> lot_month date_part \<and> lot_month date_part \<le> 12)
      then (None, ''type1'')
      else (case datetime (lot_year date_part) (lot_month date_part) (lot_day date_part) of
              Some d \<Rightarrow> (Some d, ''type1'') | None \<Rightarrow> (None, ''type1'')))"
  using assms
  by (simp add: extract_date_from_lot_def type1_match_shape Let_def
        lot_day_def lot_month_def lot_year_def)

text \<open>
  C8. The identifier is read with the white space at its ends removed. An identifier of
  the type-1 shape whose site code is not in the allow-list is unknown with no date; one
  whose site code is allowed and whose date is invalid (day above 31, month above 12, or
  no date of the calendar) is type1 with no date, and one with a date of the calendar is
  type1 with that date; an identifier of the type-2 shape is type2 with no date; an
  identifier of neither shape, and a missing one, is unknown with no date. An identifier
  that has one of the two shapes has no white space at its ends.
\<close>

theorem lot_classification:
  "(strip lot = site_code @ date_part @ suffix \<and> type1_shape site_code date_part suffix
       \<and> site_code \<notin> codes \<longrightarrow>
      extract_date_from_lot codes (Some lot) = (None, ''unknown''))
   \<and> (strip lot = site_code @ date_part @ suffix \<and> type1_shape site_code date_part suffix
       \<and> site_code \<in> codes
       \<and> (31 < lot_day date_part \<or> 12 < lot_month date_part
          \<or> datetime (lot_year date_part) (lot_month date_part) (lot_day date_part) = None) \<longrightarrow>
      extract_date_from_lot codes (Some lot) = (None, ''type1''))
   \<and> (strip lot = site_code @ date_part @ suffix \<and> type1_shape site_code date_part suffix
       \<and> site_code \<in> codes
       \<and> datetime (lot_year date_part) (lot_month date_part) (lot_day date_part) = Some d \<longrightarrow>
      extract_date_from_lot codes (Some lot) = (Some d, ''type1''))
   \<and> (strip lot = ''LOT'' @ date_part \<and> type2_shape date_part \<longrightarrow>
      extract_date_from_lot codes (Some lot) = (None, ''type2''))
   \<and> ((\<nexists>a b c. strip lot = a @ b @ c \<and> type1_shape a b c)
       \<and> (\<nexists>b. strip lot = ''LOT'' @ b \<and> type2_shape b) \<longrightarrow>
      extract_date_from_lot codes (Some lot) = (None, ''unknown''))
   \<and> extract_date_from_lot codes None = (None, ''unknown'')
   \<and> (type1_shape site_code date_part suffix \<longrightarrow>
      strip (site_code @ date_part @ suffix) = site_code @ date_part @ suffix)
   \<and> (type2_shape date_part \<longrightarrow> strip (''LOT'' @ date_part) = ''LOT'' @ date_part)"
proof (intro conjI impI)
  assume "strip lot = site_code @ date_part @ suffix \<and> type1_shape site_code date_part suffix
       \<and> site_code \<notin> codes"
  then show "extract_date_from_lot codes (Some lot) = (None, ''unknown'')"
    by (simp add: extract_type1)
next
  assume h: "strip lot = site_code @ date_part @ suffix
       \<and> type1_shape site_code date_part suffix \<and> site_code \<in> codes
       \<and> (31 < lot_day date_part \<or> 12 < lot_month date_part
          \<or> datetime (lot_year date_part) (lot_month date_part) (lot_day date_part) = None)"
  then have "datetime (lot_year date_part) (lot_month date_part) (lot_day date_part) = None"
    using datetime_None_late [of "lot_day date_part" "lot_month date_part" "lot_year date_part"]
    by blast
  with h show "extract_date_from_lot codes (Some lot) = (None, ''type1'')"
    by (simp add: extract_type1)
next
  assume h: "strip lot = site_code @ date_part @ suffix
       \<and> type1_shape site_code date_part suffix \<and> site_code \<in> codes
       \<and> datetime (lot_year date_part) (lot_month date_part) (lot_day date_part) = Some d"
  then have "1 \<le> lot_day date_part \<and> lot_day date_part \<le> 31
      \<and> 1 \<le> lot_month date_part \<and> lot_month date_part \<le> 12"
    by (auto simp: datetime_def days_in_month_def split: if_splits)
  with h show "extract_date_from_lot codes (Some lot) = (Some d, ''type1'')"
    by (simp add: extract_type1)
next
  assume h: "strip lot = ''LOT'' @ date_part \<and> type2_shape date_part"
  then have "type1_match (''LOT'' @ date_part) = None"
      "type2_match (''LOT'' @ date_part) = Some date_part"
    by (simp_all only: type2_not_type1 type2_match_shape)
  with h show "extract_date_from_lot codes (Some lot) = (None, ''type2'')"
    unfolding extract_date_from_lot_def by (simp only: option.case Let_def)
next
  assume h: "(\<nexists>a b c. strip lot = a @ b @ c \<and> type1_shape a b c)
       \<and> (\<nexists>b. strip lot = ''LOT'' @ b \<and> type2_shape b)"
  have "type1_match (strip lot) = None"
  proof (cases "type1_match (strip lot)")
    case None then show ?thesis .
  next
    case (Some x)
    obtain a b c where "x = (a, b, c)" by (cases x) auto
    with Some h type1_match_Some [of "strip lot" a b c] show ?thesis by blast
  qed
  moreover have "type2_match (strip lot) = None"
  proof (cases "type2_match (strip lot)")
    case None then show ?thesis .
  next
    case (Some b)
    with h type2_match_Some [of "strip lot" b] show ?thesis by blast
  qed
  ultimately show "extract_date_from_lot codes (Some lot) = (None, ''unknown'')"
    by (simp add: extract_date_from_lot_def)
next
  show "extract_date_from_lot codes None = (None, ''unknown'')"
    by (simp add: extract_date_from_lot_def)
next
  assume "type1_shape site_code date_part suffix"
  then show "strip (site_code @ date_part @ suffix) = site_code @ date_part @ suffix"
    by (rule strip_type1)
next
  assume "type2_shape date_part"
  then show "strip (''LOT'' @ date_part) = ''LOT'' @ date_part" by (rule strip_type2)
qed

theorem lot_classification_witness:
  "extract_date_from_lot {''CPKU1'', ''CB2TV''} (Some ''ABCDE070725WXYZ'') = (None, ''unknown'')
   \<and> extract_date_from_lot {''CPKU1'', ''CB2TV''} (Some ''CPKU1310225ABCD'') = (None, ''type1'')
   \<and> extract_date_from_lot {''CPKU1'', ''CB2TV''} (Some ''CPKU1070725ABCD'')
       = (Some (Date 2025 7 7), ''type1'')
   \<and> extract_date_from_lot {''CPKU1'', ''CB2TV''} (Some ''LOT311224'') = (None, ''type2'')
   \<and> extract_date_from_lot {''CPKU1'', ''CB2TV''} (Some (CHR 0xA0 # ''LOT311224 ''))
       = (None, ''type2'')
   \<and> extract_date_from_lot {''CPKU1'', ''CB2TV''} (Some (CHR 0x85 # ''CPKU1070725ABCD''))
       = (Some (Date 2025 7 7), ''type1'')
   \<and> extract_date_from_lot {''CPKU1'', ''CB2TV''} (Some ''LOTECART'') = (None, ''unknown'')"
proof -
  let ?codes = "{''CPKU1'', ''CB2TV''}"
  have s1: "type1_shape ''ABCDE'' ''070725'' ''WXYZ''" "type1_shape ''CPKU1'' ''310225'' ''ABCD''"
    "type1_shape ''CPKU1'' ''070725'' ''ABCD''"
    by (simp_all add: type1_shape_def is_upper_alnum_def is_digit_def)
  have s2: "type2_shape ''311224''" by (simp add: type2_shape_def is_digit_def)
  have d1: "datetime (lot_year ''310225'') (lot_month ''310225'') (lot_day ''310225'') = None"
    by (simp add: datetime_def lot_year_def lot_month_def lot_day_def int_of_digits_def
          digit_value_def days_in_month_def is_leap_def)
  have d2: "datetime (lot_year ''070725'') (lot_month ''070725'') (lot_day ''070725'')
      = Some (Date 2025 7 7)"
    by (simp add: datetime_def lot_year_def lot_month_def lot_day_def int_of_digits_def
          digit_value_def days_in_month_def is_leap_def)
  have st: "strip ''LOTECART'' = ''LOTECART''"
      "strip ''ABCDE070725WXYZ'' = ''ABCDE'' @ ''070725'' @ ''WXYZ''"
      "strip ''CPKU1310225ABCD'' = ''CPKU1'' @ ''310225'' @ ''ABCD''"
      "strip ''CPKU1070725ABCD'' = ''CPKU1'' @ ''070725'' @ ''ABCD''"
      "strip ''LOT311224'' = ''LOT'' @ ''311224''"
      "strip (CHR 0xA0 # ''LOT311224 '') = ''LOT'' @ ''311224''"
      "strip (CHR 0x85 # ''CPKU1070725ABCD'') = ''CPKU1'' @ ''070725'' @ ''ABCD''"
    by (simp_all add: strip_def is_space_def)
  have n1: "\<nexists>a b c. strip ''LOTECART'' = a @ b @ c \<and> type1_shape a b c"
  proof
    assume "\<exists>a b c. strip ''LOTECART'' = a @ b @ c \<and> type1_shape a b c"
    then obtain a b c where e: "''LOTECART'' = a @ b @ c" and t: "type1_shape a b c"
      unfolding st by blast
    from e have "length ''LOTECART'' = length (a @ b @ c)" by (rule arg_cong)
    with t show False by (simp add: type1_shape_def)
  qed
  have n2: "\<nexists>b. strip ''LOTECART'' = ''LOT'' @ b \<and> type2_shape b"
  proof
    assume "\<exists>b. strip ''LOTECART'' = ''LOT'' @ b \<and> type2_shape b"
    then obtain b where e: "''LOTECART'' = ''LOT'' @ b" and t: "type2_shape b"
      unfolding st by blast
    from e have "length ''LOTECART'' = length (''LOT'' @ b)" by (rule arg_cong)
    with t show False by (simp add: type2_shape_def)
  qed
  have m: "''ABCDE'' \<notin> ?codes" "''CPKU1'' \<in> ?codes" by simp_all
  from lot_classification [of "''ABCDE070725WXYZ''" "''ABCDE''" "''070725''" "''WXYZ''" ?codes]
    s1(1) m(1) st(2)
  have "extract_date_from_lot ?codes (Some ''ABCDE070725WXYZ'') = (None, ''unknown'')"
    by blast
  moreover from lot_classification [of "''CPKU1310225ABCD''" "''CPKU1''" "''310225''" "''ABCD''"
      ?codes] s1(2) m(2) d1 st(3)
  have "extract_date_from_lot ?codes (Some ''CPKU1310225ABCD'') = (None, ''type1'')"
    by blast
  moreover from lot_classification [of "''CPKU1070725ABCD''" "''CPKU1''" "''070725''" "''ABCD''"
      ?codes "Date 2025 7 7"] s1(3) m(2) d2 st(4)
  have "extract_date_from_lot ?codes (Some ''CPKU1070725ABCD'') = (Some (Date 2025 7 7), ''type1'')"
    by blast
  moreover from lot_classification [of "''LOT311224''" _ "''311224''" _ ?codes] s2 st(5)
  have "extract_date_from_lot ?codes (Some ''LOT311224'') = (None, ''type2'')"
    by blast
  moreover from lot_classification [of "CHR 0xA0 # ''LOT311224 ''" _ "''311224''" _ ?codes]
    s2 st(6)
  have "extract_date_from_lot ?codes (Some (CHR 0xA0 # ''LOT311224 '')) = (None, ''type2'')"
    by blast
  moreover from lot_classification [of "CHR 0x85 # ''CPKU1070725ABCD''" "''CPKU1''" "''070725''"
      "''ABCD''" ?codes "Date 2025 7 7"] s1(3) m(2) d2 st(7)
  have "extract_date_from_lot ?codes (Some (CHR 0x85 # ''CPKU1070725ABCD''))
      = (Some (Date 2025 7 7), ''type1'')"
    by blast
  moreover from lot_classification [of "''LOTECART''" _ _ _ ?codes] n1 n2
  have "extract_date_from_lot ?codes (Some ''LOTECART'') = (None, ''unknown'')"
    by blast
  ultimately show ?thesis by blast
qed

section \<open>Properties of the numeric formatting\<close>

text \<open>Evaluation of \<open>str_nat\<close> on literals.\<close>

lemma str_nat_small: "str_nat 0 = ''0''" "str_nat 1 = ''1''" "str_nat (Suc 0) = ''1''"
  by (simp_all add: str_nat.simps digit_char_def)

lemma str_nat_numeral:
  "str_nat (numeral k) =
     (if (numeral k :: nat) < 10 then [digit_char (numeral k)]
      else str_nat (numeral k div 10) @ [digit_char (numeral k mod 10)])"
  by (rule str_nat.simps)

lemma replicate_literal:
  "replicate (numeral k) x = x # replicate (pred_numeral k) x"
  by (simp add: numeral_eq_Suc)

lemmas fmt_eval = replicate_literal to_csv_number_def format_number_def strip_fixed_def format_fixed_def
  decimal_precision_def round_half_even_def rstrip_char_def replace_char_def digit_char_def
  Let_def str_nat_small str_nat_numeral

lemmas parse_eval = float_of_string_def strip_def is_space_def split_sign_def split_first_def
  to_lower_def mantissa_def exponent_def scale10_def digitpart_value_def int_of_digits_def
  digit_value_def is_digit_def

lemma rstrip_char_decomp: "\<exists>k. s = rstrip_char c s @ replicate k c"
proof -
  have "takeWhile (\<lambda>x. x = c) (rev s)
      = replicate (length (takeWhile (\<lambda>x. x = c) (rev s))) c"
    by (rule replicate_length_same [symmetric])
       (auto dest: set_takeWhileD)
  moreover have "rev s = takeWhile (\<lambda>x. x = c) (rev s) @ dropWhile (\<lambda>x. x = c) (rev s)"
    by simp
  then have "s = rev (dropWhile (\<lambda>x. x = c) (rev s)) @ rev (takeWhile (\<lambda>x. x = c) (rev s))"
    by (metis rev_append rev_rev_ident)
  ultimately have "s = rstrip_char c s
      @ replicate (length (takeWhile (\<lambda>x. x = c) (rev s))) c"
    unfolding rstrip_char_def by (metis rev_replicate)
  then show ?thesis ..
qed

lemma rstrip_char_last: "rstrip_char c s \<noteq> [] \<Longrightarrow> last (rstrip_char c s) \<noteq> c"
  unfolding rstrip_char_def
  using hd_dropWhile [of "\<lambda>x. x = c" "rev s"] by (simp add: last_rev)

lemma rstrip_char_id: "s \<noteq> [] \<Longrightarrow> last s \<noteq> c \<Longrightarrow> rstrip_char c s = s"
proof -
  assume "s \<noteq> []" "last s \<noteq> c"
  then have "rev s \<noteq> []" "hd (rev s) \<noteq> c" by (simp_all add: hd_rev)
  then have "dropWhile (\<lambda>x. x = c) (rev s) = rev s" by (cases "rev s") auto
  then show ?thesis by (simp add: rstrip_char_def)
qed

lemma dropWhile_replicate_same:
  "dropWhile (\<lambda>x. x = c) (replicate k c @ ys) = dropWhile (\<lambda>x. x = c) ys"
  by (induction k) simp_all

lemma rstrip_char_replicate: "rstrip_char c (xs @ replicate k c) = rstrip_char c xs"
  by (simp add: rstrip_char_def dropWhile_replicate_same)

lemma rstrip_char_append:
  "ys \<noteq> [] \<Longrightarrow> last ys \<noteq> c \<Longrightarrow> rstrip_char c (xs @ ys @ replicate k c) = xs @ ys"
proof -
  assume "ys \<noteq> []" "last ys \<noteq> c"
  then have "xs @ ys \<noteq> []" "last (xs @ ys) \<noteq> c" by simp_all
  then have "rstrip_char c (xs @ ys) = xs @ ys" by (rule rstrip_char_id)
  then show ?thesis using rstrip_char_replicate [of c "xs @ ys" k] by simp
qed

text \<open>The digits \<open>str_nat\<close> prints.\<close>

lemma digit_char_is_digit: "d < 10 \<Longrightarrow> is_digit (digit_char d)"
proof -
  assume "d < 10"
  then have "d \<in> {0, 1, 2, 3, 4, 5, 6, 7, 8, 9}" by auto
  then show ?thesis by (auto simp: digit_char_def is_digit_def)
qed

lemma str_nat_digits: "str_nat n \<noteq> [] \<and> list_all is_digit (str_nat n)"
proof (induction n rule: str_nat.induct)
  case (1 n)
  show ?case
  proof (cases "n < 10")
    case True
    then show ?thesis by (simp add: str_nat.simps [of n] digit_char_is_digit)
  next
    case False
    with "1.IH" show ?thesis
      by (simp add: str_nat.simps [of n] digit_char_is_digit)
  qed
qed

lemma length_str_nat: "n < 10 ^ Suc k \<Longrightarrow> length (str_nat n) \<le> Suc k"
proof (induction k arbitrary: n)
  case 0
  then show ?case by (simp add: str_nat.simps [of n])
next
  case (Suc k)
  show ?case
  proof (cases "n < 10")
    case True
    then show ?thesis by (simp add: str_nat.simps [of n])
  next
    case False
    from Suc.prems have "n div 10 < 10 ^ Suc k" by (simp add: less_mult_imp_div_less mult.commute)
    from Suc.IH [OF this] False show ?thesis by (simp add: str_nat.simps [of n])
  qed
qed

text \<open>The digits \<open>str_nat\<close> prints read back as the number.\<close>

lemma int_of_digits_snoc:
  "int_of_digits (s @ [c]) = 10 * int_of_digits s + digit_value c"
  by (simp add: int_of_digits_def)

lemma digit_value_digit_char: "d < 10 \<Longrightarrow> digit_value (digit_char d) = d"
proof -
  assume "d < 10"
  then have "d \<in> {0, 1, 2, 3, 4, 5, 6, 7, 8, 9}" by auto
  then show ?thesis by (auto simp: digit_char_def digit_value_def)
qed

lemma int_of_digits_str_nat: "int_of_digits (str_nat n) = n"
proof (induction n rule: str_nat.induct)
  case (1 n)
  show ?case
  proof (cases "n < 10")
    case True
    then show ?thesis
      by (simp add: str_nat.simps [of n] digit_value_digit_char int_of_digits_def)
  next
    case False
    with "1.IH" show ?thesis
      by (simp add: str_nat.simps [of n] int_of_digits_snoc digit_value_digit_char)
  qed
qed

lemma int_of_digits_zeros: "int_of_digits (replicate k CHR ''0'' @ s) = int_of_digits s"
proof -
  have "foldl (\<lambda>n c. 10 * n + digit_value c) 0 (replicate k CHR ''0'') = 0"
    by (induction k) (simp_all add: digit_value_def)
  then show ?thesis by (simp add: int_of_digits_def)
qed

lemma round_half_even_accurate:
  "0 \<le> x \<Longrightarrow> \<bar>real (round_half_even x) - x\<bar> \<le> 1/2"
proof -
  assume x: "0 \<le> x"
  define f where "f = nat \<lfloor>x\<rfloor>"
  from x have f: "real f = of_int \<lfloor>x\<rfloor>" by (simp add: f_def)
  have lo: "real f \<le> x" and hi: "x < real f + 1" unfolding f by linarith+
  have r: "round_half_even x =
      (if x - real f < 1/2 then f else if 1/2 < x - real f then f + 1
       else if even f then f else f + 1)"
    by (simp only: round_half_even_def Let_def f_def)
  show ?thesis
  proof (cases "x - real f < 1/2")
    case True
    with r lo show ?thesis by simp
  next
    case False
    note nlt = this
    show ?thesis
    proof (cases "1/2 < x - real f")
      case True
      with r nlt hi show ?thesis by simp
    next
      case False
      with nlt have "x - real f = 1/2" by simp
      with r show ?thesis by (cases "even f") simp_all
    qed
  qed
qed

lemma is_digit_not_point: "is_digit c \<Longrightarrow> c \<noteq> CHR ''.''"
  by (auto simp: is_digit_def)

lemma last_digit_not_point: "s \<noteq> [] \<Longrightarrow> list_all is_digit s \<Longrightarrow> last s \<noteq> CHR ''.''"
  using last_in_set [of s] is_digit_not_point [of "last s"] by (auto simp: list_all_iff)

lemma format_fixed_shape:
  "\<exists>fr. format_fixed decimal_precision (Finite q)
          = (if q < 0 then ''-'' else '''')
            @ str_nat (round_half_even (\<bar>q\<bar> * 10 ^ 6) div 10 ^ 6) @ ''.'' @ fr
        \<and> length fr = 6 \<and> list_all is_digit fr
        \<and> int_of_digits fr = round_half_even (\<bar>q\<bar> * 10 ^ 6) mod 10 ^ 6"
proof -
  define n where "n = round_half_even (\<bar>q\<bar> * 10 ^ 6)"
  define d where "d = str_nat (n mod 10 ^ 6)"
  define fr where "fr = replicate (6 - length d) CHR ''0'' @ d"
  have "n mod 10 ^ 6 < 10 ^ Suc 5" by simp
  then have "length d \<le> Suc 5" unfolding d_def by (rule length_str_nat)
  then have len: "length fr = 6" by (simp add: fr_def)
  have "list_all is_digit d" by (simp add: d_def str_nat_digits)
  moreover have "is_digit CHR ''0''" by (simp add: is_digit_def)
  ultimately have dig: "list_all is_digit fr"
    by (auto simp: fr_def list_all_iff)
  have "format_fixed decimal_precision (Finite q)
      = (if q < 0 then ''-'' else '''') @ str_nat (n div 10 ^ 6) @ ''.'' @ fr"
    by (simp add: format_fixed_def decimal_precision_def Let_def n_def d_def fr_def)
  moreover have "int_of_digits fr = n mod 10 ^ 6"
    by (simp add: fr_def d_def int_of_digits_zeros int_of_digits_str_nat)
  ultimately show ?thesis using len dig unfolding n_def by blast
qed

lemma strip_fixed_shape:
  assumes ip: "ip \<noteq> []" "list_all is_digit ip" and fr: "list_all is_digit fr"
  shows "\<exists>k. (pre @ ip @ ''.'' @ fr = strip_fixed (pre @ ip @ ''.'' @ fr) @ replicate k CHR ''0''
              \<and> CHR ''.'' \<in> set (strip_fixed (pre @ ip @ ''.'' @ fr))
              \<and> last (strip_fixed (pre @ ip @ ''.'' @ fr)) \<noteq> CHR ''0'')
           \<or> (pre @ ip @ ''.'' @ fr
                = strip_fixed (pre @ ip @ ''.'' @ fr) @ ''.'' @ replicate (length fr) CHR ''0''
              \<and> strip_fixed (pre @ ip @ ''.'' @ fr) = pre @ ip)"
proof -
  let ?fmt = "pre @ ip @ ''.'' @ fr"
  have point: "CHR ''.'' \<in> set ?fmt" by simp
  from ip have lip: "last ip \<noteq> CHR ''.''" by (rule last_digit_not_point)
  obtain k where k: "fr = rstrip_char CHR ''0'' fr @ replicate k CHR ''0''"
    using rstrip_char_decomp [of fr "CHR ''0''"] by blast
  show ?thesis
  proof (cases "rstrip_char CHR ''0'' fr = []")
    case True
    with k have fr0: "fr = replicate k CHR ''0''" by simp
    then have kl: "k = length fr" by simp
    have "rstrip_char CHR ''0'' ?fmt = rstrip_char CHR ''0'' ((pre @ ip @ ''.'') @ replicate k CHR ''0'')"
      by (simp add: fr0 [symmetric])
    also have "\<dots> = rstrip_char CHR ''0'' (pre @ ip @ ''.'')" by (rule rstrip_char_replicate)
    also have "\<dots> = pre @ ip @ ''.''" by (rule rstrip_char_id) simp_all
    finally have z: "rstrip_char CHR ''0'' ?fmt = pre @ ip @ ''.''" .
    have "rstrip_char CHR ''.'' (pre @ ip @ ''.'')
        = rstrip_char CHR ''.'' ((pre @ ip) @ replicate 1 CHR ''.'')" by simp
    also have "\<dots> = rstrip_char CHR ''.'' (pre @ ip)" by (rule rstrip_char_replicate)
    also from ip(1) lip have "\<dots> = pre @ ip" by (intro rstrip_char_id) simp_all
    finally have p: "rstrip_char CHR ''.'' (pre @ ip @ ''.'') = pre @ ip" .
    from point z p ip(1) have r: "strip_fixed ?fmt = pre @ ip"
      by (simp add: strip_fixed_def Let_def)
    have "?fmt = (pre @ ip) @ ''.'' @ replicate (length fr) CHR ''0''"
      using fr0 kl by simp
    with r show ?thesis by simp
  next
    case False
    define fr' where "fr' = rstrip_char CHR ''0'' fr"
    from False have ne: "fr' \<noteq> []" by (simp add: fr'_def)
    then have l0: "last fr' \<noteq> CHR ''0''" unfolding fr'_def by (rule rstrip_char_last)
    from k have k': "fr = fr' @ replicate k CHR ''0''" by (simp add: fr'_def)
    with fr have "list_all is_digit fr'" by (metis list_all_append)
    with ne have lp: "last fr' \<noteq> CHR ''.''" by (rule last_digit_not_point)
    have "rstrip_char CHR ''0'' ?fmt
        = rstrip_char CHR ''0'' ((pre @ ip @ ''.'') @ fr' @ replicate k CHR ''0'')"
      using k' by simp
    also from ne l0 have "\<dots> = (pre @ ip @ ''.'') @ fr'" by (rule rstrip_char_append)
    finally have z: "rstrip_char CHR ''0'' ?fmt = pre @ ip @ ''.'' @ fr'" by simp
    from ne lp have p: "rstrip_char CHR ''.'' (pre @ ip @ ''.'' @ fr') = pre @ ip @ ''.'' @ fr'"
      by (intro rstrip_char_id) simp_all
    from point z p have r: "strip_fixed ?fmt = pre @ ip @ ''.'' @ fr'"
      by (simp add: strip_fixed_def Let_def)
    have "?fmt = (pre @ ip @ ''.'' @ fr') @ replicate k CHR ''0''" using k' by simp
    moreover have "CHR ''.'' \<in> set (pre @ ip @ ''.'' @ fr')" by simp
    moreover from ne l0 have "last (pre @ ip @ ''.'' @ fr') \<noteq> CHR ''0''" by simp
    ultimately show ?thesis unfolding r by blast
  qed
qed

lemma replace_char_removes: "a \<noteq> b \<Longrightarrow> a \<notin> set (replace_char a b s)"
  by (auto simp: replace_char_def)

text \<open>
  C9 as stated fails on its last clause: a text that is not a number is returned as it
  is, so it is echoed.
\<close>

theorem text_echoed_counterexample:
  "format_number (PyStr ''abc'') = ''abc'' \<and> to_csv_number (PyStr ''abc'') '','' = ''abc''"
  by (simp add: fmt_eval parse_eval)

text \<open>
  C9 (as amended). A finite number is printed with six decimals, rounded to the nearest:
  with \<open>n\<close> the integer within one half of a million times the absolute value that the
  rounding takes, the digits before the point read as \<open>n div 10 ^ 6\<close> and the six digits
  after it as \<open>n mod 10 ^ 6\<close>; the zeros that end the fraction are removed, and the
  decimal point with them when the whole fraction is zero; the result is never empty; \<^verbatim>\<open>_to_csv_number\<close> with
  the comma puts a comma for every point, so 12.5 is written \<^verbatim>\<open>12,5\<close>. A text that reads
  as a number once trimmed, with the comma or the point as separator, is formatted as
  that number; a text that does not is returned trimmed with its commas turned into
  points (and, in the CSV form, back into commas).
\<close>

theorem number_formatting:
  "(\<exists>fr. format_fixed decimal_precision (Finite q)
            = (if q < 0 then ''-'' else '''')
              @ str_nat (round_half_even (\<bar>q\<bar> * 10 ^ 6) div 10 ^ 6) @ ''.'' @ fr
          \<and> length fr = 6 \<and> list_all is_digit fr
          \<and> int_of_digits fr = round_half_even (\<bar>q\<bar> * 10 ^ 6) mod 10 ^ 6)
   \<and> int_of_digits (str_nat (round_half_even (\<bar>q\<bar> * 10 ^ 6) div 10 ^ 6))
       = round_half_even (\<bar>q\<bar> * 10 ^ 6) div 10 ^ 6
   \<and> \<bar>real (round_half_even (\<bar>q\<bar> * 10 ^ 6)) - \<bar>q\<bar> * 10 ^ 6\<bar> \<le> 1/2
   \<and> (\<exists>k. (format_fixed decimal_precision (Finite q)
               = format_number (PyFloat (Finite q)) @ replicate k CHR ''0''
             \<and> CHR ''.'' \<in> set (format_number (PyFloat (Finite q)))
             \<and> last (format_number (PyFloat (Finite q))) \<noteq> CHR ''0'')
          \<or> (format_fixed decimal_precision (Finite q)
               = format_number (PyFloat (Finite q)) @ ''.'' @ replicate 6 CHR ''0''
             \<and> format_number (PyFloat (Finite q))
                = (if q < 0 then ''-'' else '''')
                  @ str_nat (round_half_even (\<bar>q\<bar> * 10 ^ 6) div 10 ^ 6)))
   \<and> format_number (PyFloat f) \<noteq> ''''
   \<and> to_csv_number v '','' = replace_char CHR ''.'' CHR '','' (format_number v)
   \<and> CHR ''.'' \<notin> set (to_csv_number v '','')
   \<and> (float_of_string (replace_char CHR '','' CHR ''.'' (strip text)) = Some f \<longrightarrow>
        format_number (PyStr text) = format_number (PyFloat f))
   \<and> (float_of_string (replace_char CHR '','' CHR ''.'' (strip text)) = None \<longrightarrow>
        format_number (PyStr text) = replace_char CHR '','' CHR ''.'' (strip text))
   \<and> to_csv_number (PyFloat (Finite 12.5)) '','' = ''12,5''
   \<and> to_csv_number (PyStr ''12.500000'') '','' = ''12,5''
   \<and> to_csv_number (PyStr ''12,50'') '','' = ''12,5''"
proof -
  let ?sgn = "if q < 0 then ''-'' else ''''"
  let ?ip = "str_nat (round_half_even (\<bar>q\<bar> * 10 ^ 6) div 10 ^ 6)"
  obtain fr where fr: "format_fixed decimal_precision (Finite q) = ?sgn @ ?ip @ ''.'' @ fr"
      "length fr = 6" "list_all is_digit fr"
      "int_of_digits fr = round_half_even (\<bar>q\<bar> * 10 ^ 6) mod 10 ^ 6"
    using format_fixed_shape [of q] by blast
  then have shape: "\<exists>fr. format_fixed decimal_precision (Finite q) = ?sgn @ ?ip @ ''.'' @ fr
          \<and> length fr = 6 \<and> list_all is_digit fr
          \<and> int_of_digits fr = round_half_even (\<bar>q\<bar> * 10 ^ 6) mod 10 ^ 6" by blast
  have ipv: "int_of_digits ?ip = round_half_even (\<bar>q\<bar> * 10 ^ 6) div 10 ^ 6"
    by (rule int_of_digits_str_nat)
  have acc: "\<bar>real (round_half_even (\<bar>q\<bar> * 10 ^ 6)) - \<bar>q\<bar> * 10 ^ 6\<bar> \<le> 1/2"
    by (rule round_half_even_accurate) simp
  have num: "format_number (PyFloat (Finite q))
      = strip_fixed (format_fixed decimal_precision (Finite q))"
    by (simp add: format_number_def)
  have ip: "?ip \<noteq> []" "list_all is_digit ?ip" by (simp_all add: str_nat_digits)
  have stripped: "\<exists>k. (format_fixed decimal_precision (Finite q)
               = format_number (PyFloat (Finite q)) @ replicate k CHR ''0''
             \<and> CHR ''.'' \<in> set (format_number (PyFloat (Finite q)))
             \<and> last (format_number (PyFloat (Finite q))) \<noteq> CHR ''0'')
          \<or> (format_fixed decimal_precision (Finite q)
               = format_number (PyFloat (Finite q)) @ ''.'' @ replicate 6 CHR ''0''
             \<and> format_number (PyFloat (Finite q)) = ?sgn @ ?ip)"
    using strip_fixed_shape [OF ip fr(3), of ?sgn] unfolding num fr(1) fr(2) by simp
  have nonempty: "format_number (PyFloat f) \<noteq> ''''"
    by (simp add: format_number_def strip_fixed_def Let_def)
  have csv: "to_csv_number v '','' = replace_char CHR ''.'' CHR '','' (format_number v)"
    by (simp add: to_csv_number_def Let_def)
  have nopoint: "CHR ''.'' \<notin> set (to_csv_number v '','')"
    unfolding csv by (rule replace_char_removes) simp
  have parsed: "float_of_string (replace_char CHR '','' CHR ''.'' (strip text)) = Some f \<longrightarrow>
        format_number (PyStr text) = format_number (PyFloat f)"
    by (simp add: format_number_def Let_def)
  have echoed: "float_of_string (replace_char CHR '','' CHR ''.'' (strip text)) = None \<longrightarrow>
        format_number (PyStr text) = replace_char CHR '','' CHR ''.'' (strip text)"
    by (simp add: format_number_def Let_def)
  have e1: "to_csv_number (PyFloat (Finite 12.5)) '','' = ''12,5''"
    by (simp add: fmt_eval)
  have e2: "to_csv_number (PyStr ''12.500000'') '','' = ''12,5''"
    by (simp add: fmt_eval parse_eval)
  have e3: "to_csv_number (PyStr ''12,50'') '','' = ''12,5''"
    by (simp add: fmt_eval parse_eval)
  from shape ipv acc stripped nonempty csv nopoint parsed echoed e1 e2 e3 show ?thesis
    by (intro conjI)
qed

theorem number_formatting_witness:
  "float_of_string (replace_char CHR '','' CHR ''.'' (strip '' 7,250 '')) = Some (Finite 7.25)
   \<and> format_number (PyStr '' 7,250 '') = format_number (PyFloat (Finite 7.25))
   \<and> to_csv_number (PyFloat (Finite 7.25)) '','' = ''7,25''
   \<and> float_of_string (replace_char CHR '','' CHR ''.'' (strip (CHR 0xA0 # ''12,5'')))
       = Some (Finite 12.5)
   \<and> format_number (PyStr (CHR 0xA0 # ''12,5'')) = format_number (PyFloat (Finite 12.5))
   \<and> format_number (PyFloat (Finite 12.5)) = ''12.5''
   \<and> float_of_string (replace_char CHR '','' CHR ''.'' (strip ''N/A'')) = None
   \<and> format_number (PyStr ''N/A'') = replace_char CHR '','' CHR ''.'' (strip ''N/A'')"
proof -
  have p: "float_of_string (replace_char CHR '','' CHR ''.'' (strip '' 7,250 ''))
      = Some (Finite 7.25)"
    by (simp add: parse_eval replace_char_def)
  have b: "float_of_string (replace_char CHR '','' CHR ''.'' (strip (CHR 0xA0 # ''12,5'')))
      = Some (Finite 12.5)"
    by (simp add: parse_eval replace_char_def)
  have n: "float_of_string (replace_char CHR '','' CHR ''.'' (strip ''N/A'')) = None"
    by (simp add: parse_eval replace_char_def)
  have "format_number (PyStr '' 7,250 '') = format_number (PyFloat (Finite 7.25))"
    using number_formatting [of _ "Finite 7.25" _ "'' 7,250 ''"] p by blast
  moreover have "format_number (PyStr (CHR 0xA0 # ''12,5''))
      = format_number (PyFloat (Finite 12.5))"
    using number_formatting [of _ "Finite 12.5" _ "CHR 0xA0 # ''12,5''"] b by blast
  moreover have "format_number (PyStr ''N/A'') = replace_char CHR '','' CHR ''.'' (strip ''N/A'')"
    using number_formatting [of _ _ _ "''N/A''"] n by blast
  moreover have "to_csv_number (PyFloat (Finite 7.25)) '','' = ''7,25''"
    by (simp add: fmt_eval)
  moreover have "format_number (PyFloat (Finite 12.5)) = ''12.5''"
    by (simp add: fmt_eval)
  ultimately show ?thesis using p b n by blast
qed

lemmas table_eval = stock_raw_def stock_line_def template_row_def
  detect_lotecart_candidates_def df_clean_def clean_quantity_def lotecart_mask_def
  create_lotecart_adjustments_def candidate_adjustment_def lotecart_adjustment_def
  List.map_filter_def
  calculate_discrepancies_def discrepancy_row_def real_quantities_dict_def
  distribute_discrepancies_def groupby_def group_key_def
  distribute_group_def sorted_group_def fifo_before_def lifo_before_def ecart_total_def
  allocate_def residual_warning_def py_sub_def

lemmas regen_eval = generate_final_file_def adjustments_dict_def adjustment_key_def adjustment_of_def original_key_def count_indicator_def
  emplacement_updates_def replay_parts_def max_line_number_def update_max_line_number_def new_lotecart_lines_def
  adapt_lotecart_line_def lotecart_line_def truthy_def zero_epsilon_def
  strip_def is_space_def to_lower_def str_int_def

section \<open>Properties of the found-stock handler and of the regenerator\<close>

subsection \<open>Fields of a line\<close>

lemma split_nonempty: "split sep s \<noteq> []"
  by (induction s) (auto split: list.splits)

lemma split_no_sep: "sep \<notin> set p \<Longrightarrow> split sep p = [p]"
  by (induction p) auto

lemma split_append_sep: "sep \<notin> set p \<Longrightarrow> split sep (p @ sep # rest) = p # split sep rest"
  by (induction p) (auto split: list.splits simp: split_nonempty)

lemma split_fields_no_sep: "p \<in> set (split sep s) \<Longrightarrow> sep \<notin> set p"
proof (induction s arbitrary: p)
  case Nil
  then show ?case by simp
next
  case (Cons c cs)
  show ?case
  proof (cases "c = sep")
    case True
    with Cons show ?thesis by auto
  next
    case False
    obtain q qs where s: "split sep cs = q # qs"
      using split_nonempty [of sep cs] by (cases "split sep cs") auto
    with False Cons.prems have "p = c # q \<or> p \<in> set qs" by simp
    with Cons.IH s False show ?thesis by auto
  qed
qed

lemma split_join:
  "ps \<noteq> [] \<Longrightarrow> \<forall>p \<in> set ps. sep \<notin> set p \<Longrightarrow> split sep (join sep ps) = ps"
proof (induction sep ps rule: join.induct)
  case (1 sep)
  then show ?case by simp
next
  case (2 sep p)
  then show ?case by (simp add: split_no_sep)
next
  case (3 sep p q ps)
  then show ?case by (simp add: split_append_sep)
qed

lemma split_join_nth:
  "i < length ps \<Longrightarrow> \<forall>j \<le> i. sep \<notin> set (ps ! j) \<Longrightarrow>
   i < length (split sep (join sep ps)) \<and> split sep (join sep ps) ! i = ps ! i"
proof (induction sep ps arbitrary: i rule: join.induct)
  case (1 sep)
  then show ?case by simp
next
  case (2 sep p)
  then show ?case by (simp add: split_no_sep)
next
  case (3 sep p q ps)
  from "3.prems" have p: "sep \<notin> set p" by auto
  show ?case
  proof (cases i)
    case 0
    with p show ?thesis by (simp add: split_append_sep)
  next
    case (Suc k)
    with "3.prems" have "k < length (q # ps)" "\<forall>j \<le> k. sep \<notin> set ((q # ps) ! j)" by auto
    from "3.IH" [OF this] Suc p show ?thesis by (simp add: split_append_sep)
  qed
qed

subsection \<open>Characters of the printed numbers\<close>

lemma format_number_chars:
  assumes "c \<in> set (format_number (PyFloat (Finite q)))"
  shows "is_digit c \<or> c = CHR ''-'' \<or> c = CHR ''.''"
proof -
  let ?sgn = "if q < 0 then ''-'' else ''''"
  let ?ip = "str_nat (round_half_even (\<bar>q\<bar> * 10 ^ 6) div 10 ^ 6)"
  let ?r = "format_number (PyFloat (Finite q))"
  obtain fr where fr: "format_fixed decimal_precision (Finite q) = ?sgn @ ?ip @ ''.'' @ fr"
      "list_all is_digit fr"
    using format_fixed_shape [of q] by blast
  have ip: "?ip \<noteq> []" "list_all is_digit ?ip" by (simp_all add: str_nat_digits)
  have num: "?r = strip_fixed (?sgn @ ?ip @ ''.'' @ fr)"
    by (simp add: format_number_def fr(1))
  from strip_fixed_shape [OF ip fr(2), of ?sgn]
  have "set ?r \<subseteq> set (?sgn @ ?ip @ ''.'' @ fr)"
    unfolding num [symmetric] by (metis set_append sup_ge1)
  with assms have "c \<in> set (?sgn @ ?ip @ ''.'' @ fr)" by blast
  with ip(2) fr(2) show ?thesis by (auto simp: list_all_iff split: if_splits)
qed

lemma is_digit_not_sep: "is_digit c \<Longrightarrow> c \<noteq> CHR '';''"
  by (auto simp: is_digit_def)

lemma format_number_no_sep: "CHR '';'' \<notin> set (format_number (PyFloat f))"
proof (cases f)
  case (Finite q)
  with format_number_chars [of "CHR '';''" q] is_digit_not_sep [of "CHR '';''"]
  show ?thesis by auto
next
  case (Inf neg)
  then show ?thesis by (simp add: format_number_def format_fixed_def strip_fixed_def)
next
  case NaN
  then show ?thesis by (simp add: format_number_def format_fixed_def strip_fixed_def)
qed

lemma replace_char_no_sep:
  "CHR '';'' \<notin> set s \<Longrightarrow> CHR '';'' \<notin> set (replace_char CHR ''.'' CHR '','' s)"
  by (auto simp: replace_char_def)

lemma to_csv_number_no_sep: "CHR '';'' \<notin> set (to_csv_number (PyFloat f) '','')"
  by (simp add: to_csv_number_def Let_def replace_char_no_sep format_number_no_sep)

lemma str_nat_no_sep: "CHR '';'' \<notin> set (str_nat n)"
  using str_nat_digits [of n] is_digit_not_sep [of "CHR '';''"] by (auto simp: list_all_iff)

lemma str_int_no_sep: "CHR '';'' \<notin> set (str_int i)"
  by (simp add: str_int_def str_nat_no_sep)

subsection \<open>Reading back a printed integer\<close>

lemma digitpart_ok_digits: "s \<noteq> [] \<Longrightarrow> list_all is_digit s \<Longrightarrow> digitpart_ok s"
proof (induction s rule: digitpart_ok.induct)
  case 1
  then show ?case by simp
next
  case (2 c)
  then show ?case by simp
next
  case (3 c d r)
  from "3.prems" have d: "is_digit d" by simp
  then have "d \<noteq> CHR ''_''" by (auto simp: is_digit_def)
  with "3.IH"(2) "3.prems" show ?case by simp
qed

lemma filter_digits: "list_all is_digit s \<Longrightarrow> filter is_digit s = s"
  by (induction s) auto

lemma strip_digits: "s \<noteq> [] \<Longrightarrow> list_all is_digit s \<Longrightarrow> strip s = s"
proof -
  assume s: "s \<noteq> []" "list_all is_digit s"
  then have "is_digit (hd s)" "is_digit (last s)" by (auto simp: list_all_iff)
  then have "\<not> is_space (hd s)" "\<not> is_space (last s)" by (simp_all add: digit_not_space)
  with s(1) show ?thesis by (intro strip_id)
qed

lemma py_int_str_nat: "py_int (str_nat n) = Some (int n)"
proof -
  have d: "str_nat n \<noteq> []" "list_all is_digit (str_nat n)" by (simp_all add: str_nat_digits)
  then have "is_digit (hd (str_nat n))" by (auto simp: list_all_iff)
  then have "hd (str_nat n) \<noteq> CHR ''-''" "hd (str_nat n) \<noteq> CHR ''+''"
    by (auto simp: is_digit_def)
  with d(1) have "split_sign (str_nat n) = (False, str_nat n)"
    by (cases "str_nat n") (auto simp: split_sign_def)
  with d show ?thesis
    by (simp add: py_int_def strip_digits digitpart_ok_digits digitpart_value_def
          filter_digits int_of_digits_str_nat)
qed

lemma py_int_str_int: "0 \<le> i \<Longrightarrow> py_int (str_int i) = Some i"
  by (simp add: str_int_def py_int_str_nat)

subsection \<open>The new found-stock lines\<close>

text \<open>\<open>new_fields n q parts\<close>: the fields of a new line with line number \<open>n\<close> and quantity
  text \<open>q\<close>, as \<^verbatim>\<open>generate_lotecart_lines\<close> makes them.\<close>

lemma list_update_all:
  "\<forall>p \<in> set xs. P p \<Longrightarrow> P v \<Longrightarrow> \<forall>p \<in> set (xs[i := v]). P p"
  using set_update_subset_insert [of xs i v] by auto

lemma lotecart_line_fields:
  assumes "lotecart_line m adj = Some parts"
  shows "15 \<le> length parts \<and> (\<forall>p \<in> set parts. CHR '';'' \<notin> set p)
     \<and> parts ! 3 = str_int (m + 1000)
     \<and> parts ! 5 = format_number (PyFloat (QUANTITE_CORRIGEE adj))
     \<and> parts ! 7 = ''2'' \<and> parts ! 14 = ''LOTECART''"
proof -
  from assms obtain reference where ref: "reference_line adj = Some reference"
    by (auto simp: lotecart_line_def split: if_splits option.splits)
  let ?ps = "split CHR '';'' (strip reference)"
  let ?q = "QUANTITE_CORRIGEE adj"
  let ?q' = "case QUANTITE_REELLE_SAISIE adj of Some x \<Rightarrow> x | None \<Rightarrow> ?q"
  from assms ref have len: "15 \<le> length ?ps"
    and parts: "parts = ?ps[3 := str_int (m + 1000), 5 := format_number (PyFloat ?q),
        6 := format_number (PyFloat ?q'), 7 := ''2'', 14 := ''LOTECART'']"
    by (auto simp: lotecart_line_def Let_def split: if_splits)
  have ps: "\<forall>p \<in> set ?ps. CHR '';'' \<notin> set p"
    by (auto dest: split_fields_no_sep)
  have nosep: "\<forall>p \<in> set parts. CHR '';'' \<notin> set p"
    unfolding parts
    by (intro list_update_all ps str_int_no_sep format_number_no_sep) simp_all
  from len parts nosep show ?thesis by simp
qed

lemma generate_lotecart_lines_fields:
  "k < length (generate_lotecart_lines adjs m) \<Longrightarrow>
   \<exists>parts q. generate_lotecart_lines adjs m ! k = join CHR '';'' parts
      \<and> 15 \<le> length parts \<and> (\<forall>p \<in> set parts. CHR '';'' \<notin> set p)
      \<and> parts ! 3 = str_int (m + 1000 * (int k + 1))
      \<and> parts ! 5 = format_number (PyFloat q)
      \<and> parts ! 7 = ''2'' \<and> parts ! 14 = ''LOTECART''"
proof (induction adjs arbitrary: m k)
  case Nil
  then show ?case by simp
next
  case (Cons adj adjs)
  show ?case
  proof (cases "lotecart_line m adj")
    case None
    with Cons show ?thesis by simp
  next
    case (Some parts)
    note f = lotecart_line_fields [OF Some]
    show ?thesis
    proof (cases k)
      case 0
      with Some f show ?thesis by auto
    next
      case (Suc j)
      with Cons.prems Some have "j < length (generate_lotecart_lines adjs (m + 1000))" by simp
      note ih = Cons.IH [OF this]
      have nth: "generate_lotecart_lines (adj # adjs) m ! k
          = generate_lotecart_lines adjs (m + 1000) ! j"
        using Some Suc by simp
      have eq: "m + 1000 + 1000 * (int j + 1) = m + 1000 * (int k + 1)" using Suc by simp
      from ih show ?thesis unfolding nth eq .
    qed
  qed
qed

lemma adapt_lotecart_line_fields:
  assumes "15 \<le> length parts" "\<forall>p \<in> set parts. CHR '';'' \<notin> set p"
    "parts ! 5 = format_number (PyFloat q)"
  shows "split CHR '';'' (adapt_lotecart_line (join CHR '';'' parts))
     = parts[5 := ''0'', 6 := to_csv_number (PyFloat q) '','']"
proof -
  from assms(1) have ne: "parts \<noteq> []" by auto
  from ne assms(2) have s: "split CHR '';'' (join CHR '';'' parts) = parts" by (rule split_join)
  let ?new = "parts[5 := ''0'', 6 := to_csv_number (PyFloat q) '','']"
  from assms(1,3) s have a: "adapt_lotecart_line (join CHR '';'' parts) = join CHR '';'' ?new"
    by (simp add: adapt_lotecart_line_def Let_def to_csv_number_def)
  have nosep: "\<forall>p \<in> set ?new. CHR '';'' \<notin> set p"
    by (intro list_update_all assms(2) to_csv_number_no_sep) simp
  from ne have "?new \<noteq> []" by simp
  then have "split CHR '';'' (join CHR '';'' ?new) = ?new" using nosep by (rule split_join)
  with a show ?thesis by simp
qed

lemma length_new_lotecart_lines:
  "length (new_lotecart_lines distributed_df original_df)
     = length (generate_lotecart_lines
          (filter (\<lambda>adj. truthy (is_new_lotecart adj) \<and> \<not> truthy (is_existing_update adj))
             distributed_df)
          (max_line_number original_df))"
  by (simp add: new_lotecart_lines_def)

lemma new_lotecart_lines_fields:
  assumes "k < length (new_lotecart_lines distributed_df original_df)"
  shows "\<exists>parts q. split CHR '';'' (new_lotecart_lines distributed_df original_df ! k) = parts
      \<and> 15 \<le> length parts
      \<and> parts ! 3 = str_int (max_line_number original_df + 1000 * (int k + 1))
      \<and> parts ! 5 = ''0''
      \<and> parts ! 6 = to_csv_number (PyFloat q) '',''
      \<and> parts ! 7 = ''2'' \<and> parts ! 14 = ''LOTECART''"
proof -
  let ?adjs = "filter (\<lambda>adj. truthy (is_new_lotecart adj) \<and> \<not> truthy (is_existing_update adj))
     distributed_df"
  let ?m = "max_line_number original_df"
  from assms have k: "k < length (generate_lotecart_lines ?adjs ?m)"
    by (simp add: length_new_lotecart_lines)
  from generate_lotecart_lines_fields [OF k] obtain parts q where p:
    "generate_lotecart_lines ?adjs ?m ! k = join CHR '';'' parts"
    "15 \<le> length parts" "\<forall>p \<in> set parts. CHR '';'' \<notin> set p"
    "parts ! 3 = str_int (?m + 1000 * (int k + 1))"
    "parts ! 5 = format_number (PyFloat q)" "parts ! 7 = ''2''"
    "parts ! 14 = ''LOTECART''"
    by blast
  let ?new = "parts[5 := ''0'', 6 := to_csv_number (PyFloat q) '','']"
  from k p(1) have "new_lotecart_lines distributed_df original_df ! k
      = adapt_lotecart_line (join CHR '';'' parts)"
    by (simp add: new_lotecart_lines_def)
  with adapt_lotecart_line_fields [OF p(2,3,5)]
  have s: "split CHR '';'' (new_lotecart_lines distributed_df original_df ! k) = ?new" by simp
  from p(2) have n: "length ?new = length parts" "?new ! 3 = parts ! 3" "?new ! 5 = ''0''"
    "?new ! 6 = to_csv_number (PyFloat q) '',''" "?new ! 7 = parts ! 7"
    "?new ! 14 = parts ! 14"
    by simp_all
  from s n p(2,4,6,7) show ?thesis by metis
qed

subsection \<open>The largest line number\<close>

lemma update_max_line_number_ge: "m \<le> update_max_line_number m l"
  by (simp add: update_max_line_number_def Let_def split: option.splits)

lemma foldl_update_max_ge: "m \<le> foldl update_max_line_number m rows"
proof (induction rows arbitrary: m)
  case Nil
  show ?case by simp
next
  case (Cons a rows)
  have "m \<le> update_max_line_number m a" by (rule update_max_line_number_ge)
  also have "\<dots> \<le> foldl update_max_line_number (update_max_line_number m a) rows"
    by (rule Cons.IH)
  finally show ?case by simp
qed

lemma foldl_update_max_bound:
  "l \<in> set rows \<Longrightarrow> 15 \<le> length (split CHR '';'' (o_original_s_line_raw l)) \<Longrightarrow>
   py_int (split CHR '';'' (o_original_s_line_raw l) ! 3) = Some r \<Longrightarrow>
   r \<le> foldl update_max_line_number m rows"
proof (induction rows arbitrary: m)
  case Nil
  then show ?case by simp
next
  case (Cons a rows)
  show ?case
  proof (cases "l = a")
    case True
    with Cons.prems have "r \<le> update_max_line_number m a"
      by (simp add: update_max_line_number_def Let_def)
    also have "\<dots> \<le> foldl update_max_line_number (update_max_line_number m a) rows"
      by (rule foldl_update_max_ge)
    finally show ?thesis by simp
  next
    case False
    with Cons.prems have "l \<in> set rows" by simp
    from Cons.IH [OF this Cons.prems(2,3)] show ?thesis by simp
  qed
qed

lemma max_line_number_nonneg: "0 \<le> max_line_number original_df"
  unfolding max_line_number_def by (rule foldl_update_max_ge)

lemma max_line_number_bound:
  "l \<in> set original_df \<Longrightarrow> 15 \<le> length (split CHR '';'' (o_original_s_line_raw l)) \<Longrightarrow>
   py_int (split CHR '';'' (o_original_s_line_raw l) ! 3) = Some r \<Longrightarrow>
   r \<le> max_line_number original_df"
  unfolding max_line_number_def by (rule foldl_update_max_bound)

subsection \<open>The dictionary of adjustments\<close>

lemma foldl_adjustments_keep:
  "\<forall>x \<in> set post. adjustment_key x \<noteq> k \<Longrightarrow>
   foldl (\<lambda>d r. d(adjustment_key r \<mapsto> adjustment_of r)) d post k = d k"
  by (induction post arbitrary: d) auto

lemma adjustments_dict_last:
  "\<forall>x \<in> set post. adjustment_key x \<noteq> adjustment_key r \<Longrightarrow>
   adjustments_dict (pre @ r # post) (adjustment_key r) = Some (adjustment_of r)"
  by (simp add: adjustments_dict_def foldl_adjustments_keep)

lemma adjustments_dict_tail:
  assumes x: "x \<in> set post" and t: "\<forall>y \<in> set post. TYPE_LOT y = t"
  shows "\<exists>a. adjustments_dict (pre @ post) (adjustment_key x) = Some a \<and> type_lot a = t"
proof -
  from x have "\<exists>y \<in> set post. adjustment_key y = adjustment_key x" by blast
  then obtain p1 y p2 where post: "post = p1 @ y # p2"
    and y: "adjustment_key y = adjustment_key x"
    and last: "\<forall>z \<in> set p2. adjustment_key z \<noteq> adjustment_key x"
    using split_list_last_prop [of post "\<lambda>y. adjustment_key y = adjustment_key x"] by blast
  from last y have "\<forall>z \<in> set p2. adjustment_key z \<noteq> adjustment_key y" by simp
  then have "adjustments_dict ((pre @ p1) @ y # p2) (adjustment_key y) = Some (adjustment_of y)"
    by (rule adjustments_dict_last)
  with post y have "adjustments_dict (pre @ post) (adjustment_key x) = Some (adjustment_of y)"
    by simp
  moreover from t post have "type_lot (adjustment_of y) = t" by (simp add: adjustment_of_def)
  ultimately show ?thesis by blast
qed

subsection \<open>The replayed lines\<close>

lemma replay_parts_adjusted:
  assumes len: "15 \<le> length (split CHR '';'' (o_original_s_line_raw l))"
    and adj: "adjustments (original_key l) = Some a"
  shows "\<exists>parts. replay_parts adjustments emplacements l = Some parts
     \<and> length parts = length (split CHR '';'' (o_original_s_line_raw l))
     \<and> parts ! 5 = split CHR '';'' (o_original_s_line_raw l) ! 5
     \<and> parts ! 6 = to_csv_number (PyFloat (qte_theo_ajustee a)) '',''
     \<and> parts ! 7 = count_indicator (qte_theo_ajustee a)
     \<and> parts ! 14 = (if map to_lower (type_lot a) = ''lotecart'' then ''LOTECART''
                      else split CHR '';'' (o_original_s_line_raw l) ! 14)
     \<and> (\<forall>j \<le> 7. CHR '';'' \<notin> set (parts ! j))"
proof -
  let ?ps = "split CHR '';'' (o_original_s_line_raw l)"
  let ?w = "?ps[5 := ?ps ! 5,
      6 := to_csv_number (PyFloat (qte_theo_ajustee a)) '','',
      7 := count_indicator (qte_theo_ajustee a)]"
  let ?x = "if map to_lower (type_lot a) = ''lotecart'' then ?w[14 := ''LOTECART''] else ?w"
  let ?parts = "case emplacements (o_CODE_ARTICLE l, o_NUMERO_INVENTAIRE l) of
      Some e \<Rightarrow> ?x[9 := e] | None \<Rightarrow> ?x"
  from len adj have r: "replay_parts adjustments emplacements l = Some ?parts"
    by (simp add: replay_parts_def Let_def)
  have orig: "\<forall>j < length ?ps. CHR '';'' \<notin> set (?ps ! j)"
    by (auto dest: split_fields_no_sep nth_mem)
  have ind: "CHR '';'' \<notin> set (count_indicator (qte_theo_ajustee a))"
    by (simp add: count_indicator_def)
  note csv = to_csv_number_no_sep [of "qte_theo_ajustee a"]
  from len have l: "length ?parts = length ?ps" by (simp split: option.splits)
  from len have f5: "?parts ! 5 = ?ps ! 5" by (simp split: option.splits)
  from len have f6: "?parts ! 6 = to_csv_number (PyFloat (qte_theo_ajustee a)) '',''"
    by (simp split: option.splits)
  from len have f7: "?parts ! 7 = count_indicator (qte_theo_ajustee a)"
    by (simp split: option.splits)
  from len have f14: "?parts ! 14 = (if map to_lower (type_lot a) = ''lotecart''
      then ''LOTECART'' else ?ps ! 14)"
    by (simp split: option.splits)
  have nosep: "\<forall>j \<le> 7. CHR '';'' \<notin> set (?parts ! j)"
  proof (intro allI impI)
    fix j :: nat
    assume j: "j \<le> 7"
    with len have jl: "j < length ?ps" by simp
    from j len have "?parts ! j = ?w ! j" by (simp split: option.splits)
    also from jl have "\<dots> = (if j = 7 then count_indicator (qte_theo_ajustee a)
        else if j = 6 then to_csv_number (PyFloat (qte_theo_ajustee a)) '',''
        else ?ps ! j)"
      by (simp add: nth_list_update)
    finally show "CHR '';'' \<notin> set (?parts ! j)" using orig jl ind csv by simp
  qed
  from r l f5 f6 f7 f14 nosep show ?thesis by blast
qed

lemma replay_line_fields:
  assumes len: "15 \<le> length (split CHR '';'' (o_original_s_line_raw l))"
    and adj: "adjustments (original_key l) = Some a"
  shows "\<exists>parts. replay_parts adjustments emplacements l = Some parts
     \<and> split CHR '';'' (join CHR '';'' parts) ! 6
         = to_csv_number (PyFloat (qte_theo_ajustee a)) '',''
     \<and> split CHR '';'' (join CHR '';'' parts) ! 7 = count_indicator (qte_theo_ajustee a)"
proof -
  from replay_parts_adjusted [of l adjustments a emplacements] len adj obtain parts where p:
    "replay_parts adjustments emplacements l = Some parts"
    "length parts = length (split CHR '';'' (o_original_s_line_raw l))"
    "parts ! 6 = to_csv_number (PyFloat (qte_theo_ajustee a)) '',''"
    "parts ! 7 = count_indicator (qte_theo_ajustee a)"
    "\<forall>j \<le> 7. CHR '';'' \<notin> set (parts ! j)"
    by blast
  from p(2) len have "6 < length parts" "7 < length parts" by simp_all
  moreover from p(5) have "\<forall>j \<le> 6. CHR '';'' \<notin> set (parts ! j)" by simp
  ultimately have "split CHR '';'' (join CHR '';'' parts) ! 6 = parts ! 6"
    "split CHR '';'' (join CHR '';'' parts) ! 7 = parts ! 7"
    using split_join_nth [of 6 parts "CHR '';''"] split_join_nth [of 7 parts "CHR '';''"] p(5)
    by blast+
  with p(1,3,4) show ?thesis by simp
qed

subsection \<open>The example stock file through the pipeline\<close>

lemma stock_raw_fields:
  "CHR '';'' \<notin> set rang \<Longrightarrow> CHR '';'' \<notin> set quantite \<Longrightarrow> CHR '';'' \<notin> set lot \<Longrightarrow>
   CHR '';'' \<notin> set emplacement \<Longrightarrow>
   split CHR '';'' (stock_raw rang quantite lot emplacement)
     = [''S'', ''SES001'', ''INV001'', rang, ''FR01'', quantite, ''0'', ''1'',
        ''ART001'', emplacement, ''A'', ''UN'', ''0'', ''Z1'', lot]"
  unfolding stock_raw_def by (rule split_join) auto

lemma zero_line_update:
  "distribute_discrepancies ''FIFO'' [lot_line ''LOT123456'' None 0 5]
     (detect_lotecart_candidates finite_number [template_row (Number 0) (Number 5)])
     [stock_line ''1000'' ''0'' 0 ''LOT123456'' None ''E1'']
   = [adjusted 5 5 5 (lot_line ''LOT123456'' None 0 5),
      (lotecart_adjustment ''ART001'' ''INV001'' ''LOT123456'' 5 None None False)
        \<lparr>QUANTITE_REELLE_SAISIE := Some (Finite 5)\<rparr>]"
  by (simp add: table_eval lot_line_def adjusted_def)

lemma zero_line_file:
  "generate_final_file [''E;HEADER'']
     [adjusted 5 5 5 (lot_line ''LOT123456'' None 0 5),
      (lotecart_adjustment ''ART001'' ''INV001'' ''LOT123456'' 5 None None False)
        \<lparr>QUANTITE_REELLE_SAISIE := Some (Finite 5)\<rparr>]
     [stock_line ''1000'' ''0'' 0 ''LOT123456'' None ''E1'']
     [template_row (Number 0) (Number 5)]
   = [''E;HEADER'', ''S;SES001;INV001;1000;FR01;0;5;1;ART001;E1;A;UN;0;Z1;LOTECART'']"
proof -
  let ?l = "stock_line ''1000'' ''0'' 0 ''LOT123456'' None ''E1''"
  let ?d = "[adjusted 5 5 5 (lot_line ''LOT123456'' None 0 5),
      (lotecart_adjustment ''ART001'' ''INV001'' ''LOT123456'' 5 None None False)
        \<lparr>QUANTITE_REELLE_SAISIE := Some (Finite 5)\<rparr>]"
  have raw: "split CHR '';'' (o_original_s_line_raw ?l)
      = [''S'', ''SES001'', ''INV001'', ''1000'', ''FR01'', ''0'', ''0'', ''1'',
         ''ART001'', ''E1'', ''A'', ''UN'', ''0'', ''Z1'', ''LOT123456'']"
    by (simp add: stock_line_def stock_raw_fields)
  have key: "original_key ?l = (''ART001'', ''INV001'', ''LOT123456'')"
    by (simp add: original_key_def stock_line_def strip_def is_space_def)
  have dict: "adjustments_dict ?d (''ART001'', ''INV001'', ''LOT123456'')
      = Some \<lparr>qte_theo_ajustee = Finite 5, qte_reelle_saisie = Finite 5, type_lot = ''lotecart''\<rparr>"
    by (simp add: adjustments_dict_def adjustment_key_def adjustment_of_def adjusted_def
          lot_line_def lotecart_adjustment_def strip_def is_space_def)
  have emp: "emplacement_updates [template_row (Number 0) (Number 5)] = Map.empty"
    by (simp add: emplacement_updates_def template_row_def)
  have csv: "to_csv_number (PyFloat (Finite 5)) '','' = ''5''" by (simp add: fmt_eval)
  have ind: "count_indicator (Finite 5) = ''1''" by (simp add: count_indicator_def zero_epsilon_def)
  have replay: "replay_parts (adjustments_dict ?d) Map.empty ?l
      = Some [''S'', ''SES001'', ''INV001'', ''1000'', ''FR01'', ''0'', ''5'', ''1'',
         ''ART001'', ''E1'', ''A'', ''UN'', ''0'', ''Z1'', ''LOTECART'']"
    by (simp add: replay_parts_def raw key dict csv ind to_lower_def Let_def)
  have new: "new_lotecart_lines ?d [?l] = []"
    by (simp add: new_lotecart_lines_def adjusted_def lot_line_def lotecart_adjustment_def
          truthy_def)
  show ?thesis
    by (simp add: generate_final_file_def emp replay new List.map_filter_def)
qed

lemma new_line_made:
  "lotecart_line m
(found_stock q)
   = Some [''S'', ''SES001'', ''INV001'', str_int (m + 1000), ''FR01'',
           format_number (PyFloat (Finite q)), format_number (PyFloat (Finite q)), ''2'',
           ''ART001'', ''E1'', ''A'', ''UN'', ''0'', ''Z1'', ''LOTECART'']"
proof -
  have s: "strip (stock_raw ''1000'' ''10'' ''LOTA'' ''E1'') = stock_raw ''1000'' ''10'' ''LOTA'' ''E1''"
    by (simp add: stock_raw_def strip_def is_space_def)
  have f: "split CHR '';'' (stock_raw ''1000'' ''10'' ''LOTA'' ''E1'')
      = [''S'', ''SES001'', ''INV001'', ''1000'', ''FR01'', ''10'', ''0'', ''1'',
         ''ART001'', ''E1'', ''A'', ''UN'', ''0'', ''Z1'', ''LOTA'']"
    by (simp add: stock_raw_fields)
  have n: "stock_raw ''1000'' ''10'' ''LOTA'' ''E1'' \<noteq> ''''"
      "map to_lower (stock_raw ''1000'' ''10'' ''LOTA'' ''E1'') \<noteq> ''nan''"
      "map to_lower (stock_raw ''1000'' ''10'' ''LOTA'' ''E1'') \<noteq> ''none''"
    by (simp_all add: stock_raw_def)
  show ?thesis
    by (simp add: lotecart_line_def found_stock_def lotecart_adjustment_def truthy_def
          s f n Let_def)
qed

lemma new_line_adapted:
  "adapt_lotecart_line
     (join CHR '';'' [''S'', ''SES001'', ''INV001'', str_int n, ''FR01'',
           format_number (PyFloat (Finite q)), format_number (PyFloat (Finite q)), ''2'',
           ''ART001'', ''E1'', ''A'', ''UN'', ''0'', ''Z1'', ''LOTECART''])
   = join CHR '';'' [''S'', ''SES001'', ''INV001'', str_int n, ''FR01'', ''0'',
           to_csv_number (PyFloat (Finite q)) '','', ''2'',
           ''ART001'', ''E1'', ''A'', ''UN'', ''0'', ''Z1'', ''LOTECART'']"
proof -
  let ?parts = "[''S'', ''SES001'', ''INV001'', str_int n, ''FR01'',
           format_number (PyFloat (Finite q)), format_number (PyFloat (Finite q)), ''2'',
           ''ART001'', ''E1'', ''A'', ''UN'', ''0'', ''Z1'', ''LOTECART'']"
  have "\<forall>p \<in> set ?parts. CHR '';'' \<notin> set p"
    by (simp add: str_int_no_sep format_number_no_sep)
  then have "split CHR '';'' (join CHR '';'' ?parts) = ?parts" by (intro split_join) simp
  then show ?thesis
    by (simp add: adapt_lotecart_line_def Let_def to_csv_number_def del: join.simps)
qed

lemma printed_examples:
  "str_int 2000 = ''2000''" "str_int 3000 = ''3000''"
  "to_csv_number (PyFloat (Finite 5)) '','' = ''5''"
  "to_csv_number (PyFloat (Finite 7)) '','' = ''7''"
  "to_csv_number (PyFloat (Finite 8)) '','' = ''8''"
  "to_csv_number (PyFloat (Finite 10)) '','' = ''10''"
  by (simp_all add: str_int_def fmt_eval)

lemma lota_max: "max_line_number [stock_line ''1000'' ''10'' 10 ''LOTA'' None ''E1''] = 1000"
  by (simp add: max_line_number_def update_max_line_number_def stock_line_def
        stock_raw_fields py_int_def parse_eval)

lemma two_new_lines:
  "new_lotecart_lines
     [found_stock 5,
      found_stock 7]
     [stock_line ''1000'' ''10'' 10 ''LOTA'' None ''E1'']
   = [''S;SES001;INV001;2000;FR01;0;5;2;ART001;E1;A;UN;0;Z1;LOTECART'',
      ''S;SES001;INV001;3000;FR01;0;7;2;ART001;E1;A;UN;0;Z1;LOTECART'']"
proof -
  have t: "truthy (is_new_lotecart (found_stock q))"
      "\<not> truthy (is_existing_update (found_stock q))" for q
    by (simp_all add: found_stock_def lotecart_adjustment_def truthy_def)
  have "new_lotecart_lines
     [found_stock 5,
      found_stock 7]
     [stock_line ''1000'' ''10'' 10 ''LOTA'' None ''E1'']
    = [join CHR '';'' [''S'', ''SES001'', ''INV001'', str_int 2000, ''FR01'', ''0'',
           to_csv_number (PyFloat (Finite 5)) '','', ''2'',
           ''ART001'', ''E1'', ''A'', ''UN'', ''0'', ''Z1'', ''LOTECART''],
       join CHR '';'' [''S'', ''SES001'', ''INV001'', str_int 3000, ''FR01'', ''0'',
           to_csv_number (PyFloat (Finite 7)) '','', ''2'',
           ''ART001'', ''E1'', ''A'', ''UN'', ''0'', ''Z1'', ''LOTECART'']]"
    by (simp add: new_lotecart_lines_def t lota_max new_line_made new_line_adapted
          del: join.simps)
  then show ?thesis by (simp add: printed_examples)
qed

text \<open>
  C7. The line numbers read from field 3 of the new found-stock lines of the final file
  are the largest line number of the original lines plus 1000, plus 2000, and so on in
  the order of the lines; hence each is greater than the line number of every original
  line (of at least 15 fields, whose field 3 reads as an integer), and each new line has
  a number 1000 times the distance above that of an earlier new line.
\<close>

theorem new_line_ranks:
  "map (\<lambda>line. py_int (split CHR '';'' line ! 3)) (new_lotecart_lines distributed_df original_df)
     = map (\<lambda>k. Some (max_line_number original_df + 1000 * (int k + 1)))
         [0..<length (new_lotecart_lines distributed_df original_df)]
   \<and> (l \<in> set original_df \<and> 15 \<le> length (split CHR '';'' (o_original_s_line_raw l))
       \<and> py_int (split CHR '';'' (o_original_s_line_raw l) ! 3) = Some r
       \<and> k < length (new_lotecart_lines distributed_df original_df) \<longrightarrow>
       (\<exists>n. py_int (split CHR '';'' (new_lotecart_lines distributed_df original_df ! k) ! 3)
              = Some n \<and> r < n))
   \<and> (j < k \<and> k < length (new_lotecart_lines distributed_df original_df) \<longrightarrow>
       (\<exists>a b. py_int (split CHR '';'' (new_lotecart_lines distributed_df original_df ! j) ! 3)
                = Some a
            \<and> py_int (split CHR '';'' (new_lotecart_lines distributed_df original_df ! k) ! 3)
                = Some b
            \<and> b = a + 1000 * (int k - int j) \<and> a < b))"
proof -
  let ?news = "new_lotecart_lines distributed_df original_df"
  let ?m = "max_line_number original_df"
  have rank: "py_int (split CHR '';'' (?news ! i) ! 3) = Some (?m + 1000 * (int i + 1))"
    if "i < length ?news" for i
  proof -
    from new_lotecart_lines_fields [OF that] have
      "split CHR '';'' (?news ! i) ! 3 = str_int (?m + 1000 * (int i + 1))" by blast
    moreover have "0 \<le> ?m + 1000 * (int i + 1)" using max_line_number_nonneg [of original_df]
      by simp
    ultimately show ?thesis by (simp add: py_int_str_int)
  qed
  have ranks: "map (\<lambda>line. py_int (split CHR '';'' line ! 3)) ?news
      = map (\<lambda>k. Some (?m + 1000 * (int k + 1))) [0..<length ?news]"
    by (rule nth_equalityI) (simp_all add: rank)
  have above: "l \<in> set original_df \<and> 15 \<le> length (split CHR '';'' (o_original_s_line_raw l))
       \<and> py_int (split CHR '';'' (o_original_s_line_raw l) ! 3) = Some r
       \<and> k < length ?news \<longrightarrow>
       (\<exists>n. py_int (split CHR '';'' (?news ! k) ! 3) = Some n \<and> r < n)"
  proof
    assume h: "l \<in> set original_df \<and> 15 \<le> length (split CHR '';'' (o_original_s_line_raw l))
       \<and> py_int (split CHR '';'' (o_original_s_line_raw l) ! 3) = Some r
       \<and> k < length ?news"
    then have "r \<le> ?m" using max_line_number_bound [of l original_df r] by blast
    then have "r < ?m + 1000 * (int k + 1)" by simp
    with h rank [of k] show "\<exists>n. py_int (split CHR '';'' (?news ! k) ! 3) = Some n \<and> r < n"
      by blast
  qed
  have step: "j < k \<and> k < length ?news \<longrightarrow>
       (\<exists>a b. py_int (split CHR '';'' (?news ! j) ! 3) = Some a
            \<and> py_int (split CHR '';'' (?news ! k) ! 3) = Some b
            \<and> b = a + 1000 * (int k - int j) \<and> a < b)"
  proof
    assume h: "j < k \<and> k < length ?news"
    then have "j < length ?news" by simp
    from rank [OF this] rank [of k] h show "\<exists>a b. py_int (split CHR '';'' (?news ! j) ! 3) = Some a
            \<and> py_int (split CHR '';'' (?news ! k) ! 3) = Some b
            \<and> b = a + 1000 * (int k - int j) \<and> a < b"
      by simp
  qed
  from ranks above step show ?thesis by blast
qed

theorem new_line_ranks_witness:
  "new_lotecart_lines [found_stock 5, found_stock 7]
       [stock_line ''1000'' ''10'' 10 ''LOTA'' None ''E1'']
     = [''S;SES001;INV001;2000;FR01;0;5;2;ART001;E1;A;UN;0;Z1;LOTECART'',
        ''S;SES001;INV001;3000;FR01;0;7;2;ART001;E1;A;UN;0;Z1;LOTECART'']
   \<and> py_int (split CHR '';''
        (o_original_s_line_raw (stock_line ''1000'' ''10'' 10 ''LOTA'' None ''E1'')) ! 3)
       = Some 1000
   \<and> map (\<lambda>line. py_int (split CHR '';'' line ! 3))
        (new_lotecart_lines [found_stock 5, found_stock 7]
           [stock_line ''1000'' ''10'' 10 ''LOTA'' None ''E1''])
       = [Some 2000, Some 3000]
   \<and> (\<exists>n. py_int (split CHR '';''
              (new_lotecart_lines [found_stock 5, found_stock 7]
                 [stock_line ''1000'' ''10'' 10 ''LOTA'' None ''E1''] ! 1) ! 3) = Some n
          \<and> 1000 < n)"
proof -
  let ?l = "stock_line ''1000'' ''10'' 10 ''LOTA'' None ''E1''"
  let ?d = "[found_stock 5, found_stock 7]"
  have raw: "split CHR '';'' (o_original_s_line_raw ?l)
      = [''S'', ''SES001'', ''INV001'', ''1000'', ''FR01'', ''10'', ''0'', ''1'',
         ''ART001'', ''E1'', ''A'', ''UN'', ''0'', ''Z1'', ''LOTA'']"
    by (simp add: stock_line_def stock_raw_fields)
  have r: "py_int (split CHR '';'' (o_original_s_line_raw ?l) ! 3) = Some 1000"
    unfolding raw by (simp add: py_int_def parse_eval)
  have len: "15 \<le> length (split CHR '';'' (o_original_s_line_raw ?l))" unfolding raw by simp
  have n: "length (new_lotecart_lines ?d [?l]) = 2" by (simp add: two_new_lines)
  from new_line_ranks [of ?d "[?l]" ?l 1000 1] r len n
  have "map (\<lambda>line. py_int (split CHR '';'' line ! 3)) (new_lotecart_lines ?d [?l])
      = map (\<lambda>k. Some (max_line_number [?l] + 1000 * (int k + 1))) [0..<2]"
    and "\<exists>n. py_int (split CHR '';'' (new_lotecart_lines ?d [?l] ! 1) ! 3) = Some n \<and> 1000 < n"
    by simp_all
  moreover have "[0..<2] = [0, 1]" by (simp add: upt_rec)
  ultimately show ?thesis using r two_new_lines by (simp add: lota_max)
qed

lemma lota_table:
  "distribute_discrepancies ''FIFO'' [lot_line ''LOTA'' None 10 10]
     (detect_lotecart_candidates finite_number
        [template_row (Number 0) (Number 5), template_row (Number 10) (Number 10)])
     [stock_line ''1000'' ''10'' 10 ''LOTA'' None ''E1'']
   = [adjusted 10 0 10 (lot_line ''LOTA'' None 10 10), found_stock 5]"
  by (simp add: table_eval lot_line_def adjusted_def found_stock_def)

lemma lota_discrepancies:
  "calculate_discrepancies
     [template_row (Number 0) (Number 5), template_row (Number 10) (Number 10)]
     [stock_line ''1000'' ''10'' 10 ''LOTA'' None ''E1'']
   = Some [lot_line ''LOTA'' None 10 10]"
  by (simp add: table_eval lot_line_def strip_def is_space_def)

lemma lota_new_line:
  "new_lotecart_lines [adjusted 10 0 10 (lot_line ''LOTA'' None 10 10), found_stock 5]
     [stock_line ''1000'' ''10'' 10 ''LOTA'' None ''E1'']
   = [''S;SES001;INV001;2000;FR01;0;5;2;ART001;E1;A;UN;0;Z1;LOTECART'']"
proof -
  have t: "truthy (is_new_lotecart (found_stock q))"
      "\<not> truthy (is_existing_update (found_stock q))" for q
    by (simp_all add: found_stock_def lotecart_adjustment_def truthy_def)
  have u: "truthy (is_existing_update (adjusted 10 0 10 (lot_line ''LOTA'' None 10 10)))"
    by (simp add: adjusted_def lot_line_def truthy_def)
  have "new_lotecart_lines [adjusted 10 0 10 (lot_line ''LOTA'' None 10 10), found_stock 5]
        [stock_line ''1000'' ''10'' 10 ''LOTA'' None ''E1'']
      = [join CHR '';'' [''S'', ''SES001'', ''INV001'', str_int 2000, ''FR01'', ''0'',
           to_csv_number (PyFloat (Finite 5)) '','', ''2'',
           ''ART001'', ''E1'', ''A'', ''UN'', ''0'', ''Z1'', ''LOTECART'']]"
    by (simp add: new_lotecart_lines_def t u lota_max new_line_made new_line_adapted
          del: join.simps)
  then show ?thesis by (simp add: printed_examples)
qed

text \<open>
  C3 as stated fails on the new found-stock lines: the template rows (theoretical 0,
  counted 5) and (theoretical 10, counted 10) of article ART001, whose only stock line
  holds 10, give a new line whose corrected quantity is 5 and whose field 7 is 2.
\<close>

theorem new_line_indicator_counterexample:
  "calculate_discrepancies
     [template_row (Number 0) (Number 5), template_row (Number 10) (Number 10)]
     [stock_line ''1000'' ''10'' 10 ''LOTA'' None ''E1'']
     = Some [lot_line ''LOTA'' None 10 10]
   \<and> new_lotecart_lines
       (distribute_discrepancies ''FIFO'' [lot_line ''LOTA'' None 10 10]
          (detect_lotecart_candidates finite_number
             [template_row (Number 0) (Number 5), template_row (Number 10) (Number 10)])
          [stock_line ''1000'' ''10'' 10 ''LOTA'' None ''E1''])
       [stock_line ''1000'' ''10'' 10 ''LOTA'' None ''E1'']
     = [''S;SES001;INV001;2000;FR01;0;5;2;ART001;E1;A;UN;0;Z1;LOTECART'']
   \<and> split CHR '';'' ''S;SES001;INV001;2000;FR01;0;5;2;ART001;E1;A;UN;0;Z1;LOTECART'' ! 6
     = to_csv_number (PyFloat (Finite 5)) '',''
   \<and> split CHR '';'' ''S;SES001;INV001;2000;FR01;0;5;2;ART001;E1;A;UN;0;Z1;LOTECART'' ! 7
     = ''2''
   \<and> \<not> \<bar>5 :: real\<bar> < zero_epsilon"
  by (simp add: lota_discrepancies lota_table lota_new_line printed_examples zero_epsilon_def)

text \<open>
  C3 (as amended). In the final file, an original line that has an adjustment is written
  with field 7 equal to 2 if the absolute value of its corrected quantity is below
  \<open>10\<^sup>-\<^sup>9\<close>, and to 1 otherwise (so to 1 when the corrected quantity is a NaN); a new
  found-stock line is written with field 7 equal to 2 whatever its quantity. The data lines of the file are these and the original lines
  without adjustment.
\<close>

theorem count_indicator_field:
  "(15 \<le> length (split CHR '';'' (o_original_s_line_raw l))
      \<and> adjustments_dict distributed_df (original_key l) = Some a \<longrightarrow>
      (\<exists>parts. replay_parts (adjustments_dict distributed_df) emplacements l = Some parts
         \<and> split CHR '';'' (join CHR '';'' parts) ! 7
             = (if py_less (py_abs (qte_theo_ajustee a)) (Finite (1 / 10 ^ 9))
                then ''2'' else ''1'')
         \<and> (qte_theo_ajustee a = Finite q \<longrightarrow>
              split CHR '';'' (join CHR '';'' parts) ! 7
                = (if \<bar>q\<bar> < 1 / 10 ^ 9 then ''2'' else ''1''))))
   \<and> (k < length (new_lotecart_lines distributed_df original_df) \<longrightarrow>
        split CHR '';'' (new_lotecart_lines distributed_df original_df ! k) ! 7 = ''2'')
   \<and> generate_final_file header_lines distributed_df original_df completed_df
       = header_lines
         @ List.map_filter
             (\<lambda>original_row.
                map_option (join CHR '';'')
                  (replay_parts (adjustments_dict distributed_df)
                     (emplacement_updates completed_df) original_row))
             original_df
         @ new_lotecart_lines distributed_df original_df"
proof (intro conjI impI)
  assume h: "15 \<le> length (split CHR '';'' (o_original_s_line_raw l))
      \<and> adjustments_dict distributed_df (original_key l) = Some a"
  from replay_line_fields [of l "adjustments_dict distributed_df" a emplacements] h
  show "\<exists>parts. replay_parts (adjustments_dict distributed_df) emplacements l = Some parts
         \<and> split CHR '';'' (join CHR '';'' parts) ! 7
             = (if py_less (py_abs (qte_theo_ajustee a)) (Finite (1 / 10 ^ 9))
                then ''2'' else ''1'')
         \<and> (qte_theo_ajustee a = Finite q \<longrightarrow>
              split CHR '';'' (join CHR '';'' parts) ! 7
                = (if \<bar>q\<bar> < 1 / 10 ^ 9 then ''2'' else ''1''))"
    by (auto simp: count_indicator_def zero_epsilon_def)
next
  assume "k < length (new_lotecart_lines distributed_df original_df)"
  from new_lotecart_lines_fields [OF this]
  show "split CHR '';'' (new_lotecart_lines distributed_df original_df ! k) ! 7 = ''2''"
    by blast
next
  show "generate_final_file header_lines distributed_df original_df completed_df
       = header_lines
         @ List.map_filter
             (\<lambda>original_row.
                map_option (join CHR '';'')
                  (replay_parts (adjustments_dict distributed_df)
                     (emplacement_updates completed_df) original_row))
             original_df
         @ new_lotecart_lines distributed_df original_df"
    by (simp add: generate_final_file_def)
qed

theorem count_indicator_field_witness:
  "15 \<le> length (split CHR '';''
       (o_original_s_line_raw (stock_line ''1000'' ''0'' 0 ''LOT123456'' None ''E1'')))
   \<and> adjustments_dict
        [adjusted 5 5 5 (lot_line ''LOT123456'' None 0 5),
         (lotecart_adjustment ''ART001'' ''INV001'' ''LOT123456'' 5 None None False)
           \<lparr>QUANTITE_REELLE_SAISIE := Some (Finite 5)\<rparr>]
        (original_key (stock_line ''1000'' ''0'' 0 ''LOT123456'' None ''E1''))
      = Some \<lparr>qte_theo_ajustee = Finite 5, qte_reelle_saisie = Finite 5, type_lot = ''lotecart''\<rparr>
   \<and> (\<exists>parts. replay_parts
          (adjustments_dict
             [adjusted 5 5 5 (lot_line ''LOT123456'' None 0 5),
              (lotecart_adjustment ''ART001'' ''INV001'' ''LOT123456'' 5 None None False)
                \<lparr>QUANTITE_REELLE_SAISIE := Some (Finite 5)\<rparr>])
          Map.empty (stock_line ''1000'' ''0'' 0 ''LOT123456'' None ''E1'') = Some parts
        \<and> split CHR '';'' (join CHR '';'' parts) ! 7 = ''1'')
   \<and> length (new_lotecart_lines [found_stock 5, found_stock 7]
        [stock_line ''1000'' ''10'' 10 ''LOTA'' None ''E1'']) = 2
   \<and> split CHR '';'' (new_lotecart_lines [found_stock 5, found_stock 7]
        [stock_line ''1000'' ''10'' 10 ''LOTA'' None ''E1''] ! 1) ! 7 = ''2''"
proof -
  let ?l = "stock_line ''1000'' ''0'' 0 ''LOT123456'' None ''E1''"
  let ?d = "[adjusted 5 5 5 (lot_line ''LOT123456'' None 0 5),
      (lotecart_adjustment ''ART001'' ''INV001'' ''LOT123456'' 5 None None False)
        \<lparr>QUANTITE_REELLE_SAISIE := Some (Finite 5)\<rparr>]"
  let ?a = "\<lparr>qte_theo_ajustee = Finite 5, qte_reelle_saisie = Finite 5, type_lot = ''lotecart''\<rparr>"
  let ?n = "[found_stock 5, found_stock 7]"
  let ?o = "[stock_line ''1000'' ''10'' 10 ''LOTA'' None ''E1'']"
  have len: "15 \<le> length (split CHR '';'' (o_original_s_line_raw ?l))"
    by (simp add: stock_line_def stock_raw_fields)
  have key: "original_key ?l = (''ART001'', ''INV001'', ''LOT123456'')"
    by (simp add: original_key_def stock_line_def strip_def is_space_def)
  have dict: "adjustments_dict ?d (original_key ?l) = Some ?a"
    unfolding key
    by (simp add: adjustments_dict_def adjustment_key_def adjustment_of_def adjusted_def
          lot_line_def lotecart_adjustment_def strip_def is_space_def)
  have n: "length (new_lotecart_lines ?n ?o) = 2" by (simp add: two_new_lines)
  from count_indicator_field [of ?l ?d ?a Map.empty 5 0 "[]" "[]" "[] :: cell completed_row list",
      THEN conjunct1] len dict
  have a: "\<exists>parts. replay_parts (adjustments_dict ?d) Map.empty ?l = Some parts
        \<and> split CHR '';'' (join CHR '';'' parts) ! 7 = ''1''"
    by simp
  from count_indicator_field [of ?l ?n ?a Map.empty _ 1 ?o "[]" "[] :: cell completed_row list",
      THEN conjunct2, THEN conjunct1] n
  have b: "split CHR '';'' (new_lotecart_lines ?n ?o ! 1) ! 7 = ''2''"
    by simp
  note a b
  with len dict n show ?thesis by blast
qed

subsection \<open>Found stock on an existing line of quantity zero\<close>

lemma candidate_adjustment_type:
  "candidate_adjustment original_df c = Some u \<Longrightarrow> TYPE_LOT u = ''lotecart''"
  by (auto simp: candidate_adjustment_def lotecart_adjustment_def Let_def split: list.splits)

lemma create_lotecart_adjustments_set:
  "set (create_lotecart_adjustments cs original_df)
     = {u. \<exists>c \<in> set cs. candidate_adjustment original_df c = Some u}"
  unfolding create_lotecart_adjustments_def
  by (induction cs) (auto split: option.splits)

lemma candidate_adjustment_update:
  assumes "filter (\<lambda>l. o_CODE_ARTICLE l = Code_Article c
                        \<and> o_NUMERO_INVENTAIRE l = Numero_Inventaire c
                        \<and> o_QUANTITE l = 0) original_df = e # others"
  shows "candidate_adjustment original_df c
     = Some (lotecart_adjustment (Code_Article c) (Numero_Inventaire c) (o_NUMERO_LOT e)
               (Quantite_Reelle c) (o_Date_Lot e) None False)"
  using assms by (simp add: candidate_adjustment_def Let_def)

lemma lotecart_lowercase: "map to_lower ''lotecart'' = ''lotecart''"
  by (simp add: to_lower_def)

text \<open>
  C4 as stated fails on its last clause: the stock line 1000 of article ART001 holds 0 in
  lot LOT123456 and 5 are counted; the adjustment keeps the lot LOT123456, but the line
  is written with LOTECART in field 14.
\<close>

theorem zero_line_lot_counterexample:
  "calculate_discrepancies [template_row (Number 0) (Number 5)]
       [stock_line ''1000'' ''0'' 0 ''LOT123456'' None ''E1'']
     = Some [lot_line ''LOT123456'' None 0 5]
   \<and> map NUMERO_LOT
       (create_lotecart_adjustments
          (detect_lotecart_candidates finite_number [template_row (Number 0) (Number 5)])
          [stock_line ''1000'' ''0'' 0 ''LOT123456'' None ''E1''])
     = [''LOT123456'']
   \<and> generate_final_file [''E;HEADER'']
       (distribute_discrepancies ''FIFO'' [lot_line ''LOT123456'' None 0 5]
          (detect_lotecart_candidates finite_number [template_row (Number 0) (Number 5)])
          [stock_line ''1000'' ''0'' 0 ''LOT123456'' None ''E1''])
       [stock_line ''1000'' ''0'' 0 ''LOT123456'' None ''E1'']
       [template_row (Number 0) (Number 5)]
     = [''E;HEADER'', ''S;SES001;INV001;1000;FR01;0;5;1;ART001;E1;A;UN;0;Z1;LOTECART'']
   \<and> split CHR '';'' ''S;SES001;INV001;1000;FR01;0;5;1;ART001;E1;A;UN;0;Z1;LOTECART'' ! 14
     \<noteq> o_NUMERO_LOT (stock_line ''1000'' ''0'' 0 ''LOT123456'' None ''E1'')"
proof -
  have d: "calculate_discrepancies [template_row (Number 0) (Number 5)]
       [stock_line ''1000'' ''0'' 0 ''LOT123456'' None ''E1'']
     = Some [lot_line ''LOT123456'' None 0 5]"
    by (simp add: table_eval lot_line_def strip_def is_space_def)
  have a: "map NUMERO_LOT
       (create_lotecart_adjustments
          (detect_lotecart_candidates finite_number [template_row (Number 0) (Number 5)])
          [stock_line ''1000'' ''0'' 0 ''LOT123456'' None ''E1''])
     = [''LOT123456'']"
    by (simp add: table_eval)
  have f: "split CHR '';'' ''S;SES001;INV001;1000;FR01;0;5;1;ART001;E1;A;UN;0;Z1;LOTECART'' ! 14
     \<noteq> o_NUMERO_LOT (stock_line ''1000'' ''0'' 0 ''LOT123456'' None ''E1'')"
    by (simp add: stock_line_def)
  from d a f show ?thesis by (simp only: zero_line_update zero_line_file) simp
qed

text \<open>
  C4 (as amended). For a found-stock candidate such that an original stock line of the
  same article and inventory has quantity exactly zero, with \<open>e\<close> the first such line:
  the adjustment made for the candidate is an update, among the adjustments created, whose
  lot is the lot of \<open>e\<close>, whose corrected quantity and adjustment are the counted quantity,
  with the update flag set and the new-line flag unset; its type is \<^verbatim>\<open>lotecart\<close>, and in
  the final file the line \<open>e\<close> (of at least 15 fields) is written with LOTECART in field 14.
\<close>

theorem found_stock_update:
  "c \<in> set lotecart_candidates \<Longrightarrow>
   filter (\<lambda>l. o_CODE_ARTICLE l = Code_Article c
                 \<and> o_NUMERO_INVENTAIRE l = Numero_Inventaire c
                 \<and> o_QUANTITE l = 0) original_df = e # others \<Longrightarrow>
   (\<exists>u. candidate_adjustment original_df c = Some u
       \<and> u \<in> set (create_lotecart_adjustments lotecart_candidates original_df)
       \<and> NUMERO_LOT u = o_NUMERO_LOT e
       \<and> QUANTITE_CORRIGEE u = Finite (Quantite_Reelle c)
       \<and> AJUSTEMENT u = Finite (Quantite_Reelle c)
       \<and> is_existing_update u = Some True
       \<and> is_new_lotecart u = Some False
       \<and> TYPE_LOT u = ''lotecart'')
   \<and> (15 \<le> length (split CHR '';'' (o_original_s_line_raw e)) \<longrightarrow>
       (\<exists>parts. replay_parts
            (adjustments_dict
               (distribute_discrepancies strategy discrepancies_df lotecart_candidates
                  original_df))
            emplacements e = Some parts
          \<and> parts ! 14 = ''LOTECART''))"
proof -
  assume c: "c \<in> set lotecart_candidates"
    and z: "filter (\<lambda>l. o_CODE_ARTICLE l = Code_Article c
                 \<and> o_NUMERO_INVENTAIRE l = Numero_Inventaire c
                 \<and> o_QUANTITE l = 0) original_df = e # others"
  let ?u = "lotecart_adjustment (Code_Article c) (Numero_Inventaire c) (o_NUMERO_LOT e)
               (Quantite_Reelle c) (o_Date_Lot e) None False"
  let ?f = "\<lambda>lotecart_adj.
      lotecart_adj\<lparr>QUANTITE_REELLE_SAISIE := Some (QUANTITE_CORRIGEE lotecart_adj)\<rparr>"
  let ?adjs = "create_lotecart_adjustments lotecart_candidates original_df"
  let ?pre = "fst (distribute_groups strategy (groupby discrepancies_df))"
  from z have u: "candidate_adjustment original_df c = Some ?u"
    by (rule candidate_adjustment_update)
  with c have mem: "?u \<in> set ?adjs" by (auto simp: create_lotecart_adjustments_set)
  have fields: "NUMERO_LOT ?u = o_NUMERO_LOT e" "QUANTITE_CORRIGEE ?u = Finite (Quantite_Reelle c)"
      "AJUSTEMENT ?u = Finite (Quantite_Reelle c)" "is_existing_update ?u = Some True"
      "is_new_lotecart ?u = Some False" "TYPE_LOT ?u = ''lotecart''"
    by (simp_all add: lotecart_adjustment_def)
  have first: "\<exists>u. candidate_adjustment original_df c = Some u
       \<and> u \<in> set ?adjs
       \<and> NUMERO_LOT u = o_NUMERO_LOT e
       \<and> QUANTITE_CORRIGEE u = Finite (Quantite_Reelle c)
       \<and> AJUSTEMENT u = Finite (Quantite_Reelle c)
       \<and> is_existing_update u = Some True
       \<and> is_new_lotecart u = Some False
       \<and> TYPE_LOT u = ''lotecart''"
    using u mem fields by blast
  have second: "15 \<le> length (split CHR '';'' (o_original_s_line_raw e)) \<longrightarrow>
       (\<exists>parts. replay_parts
            (adjustments_dict
               (distribute_discrepancies strategy discrepancies_df lotecart_candidates
                  original_df))
            emplacements e = Some parts
          \<and> parts ! 14 = ''LOTECART'')"
  proof
    assume len: "15 \<le> length (split CHR '';'' (o_original_s_line_raw e))"
    have "e \<in> set (filter (\<lambda>l. o_CODE_ARTICLE l = Code_Article c
                 \<and> o_NUMERO_INVENTAIRE l = Numero_Inventaire c
                 \<and> o_QUANTITE l = 0) original_df)"
      unfolding z by simp
    then have e: "o_CODE_ARTICLE e = Code_Article c" "o_NUMERO_INVENTAIRE e = Numero_Inventaire c"
      by simp_all
    then have key: "original_key e = adjustment_key (?f ?u)"
      by (simp add: original_key_def adjustment_key_def lotecart_adjustment_def)
    from mem have in_post: "?f ?u \<in> set (map ?f ?adjs)" by simp
    have types: "\<forall>y \<in> set (map ?f ?adjs). TYPE_LOT y = ''lotecart''"
      by (auto simp: create_lotecart_adjustments_set dest: candidate_adjustment_type)
    from adjustments_dict_tail [OF in_post types, of ?pre]
    obtain a where a: "adjustments_dict (?pre @ map ?f ?adjs) (original_key e) = Some a"
      "type_lot a = ''lotecart''"
      unfolding key by blast
    then have dict: "adjustments_dict
        (distribute_discrepancies strategy discrepancies_df lotecart_candidates original_df)
        (original_key e) = Some a"
      by (simp add: distribute_discrepancies_def)
    have low: "map to_lower (type_lot a) = ''lotecart''"
      unfolding a(2) by (rule lotecart_lowercase)
    from replay_parts_adjusted [of e "adjustments_dict
        (distribute_discrepancies strategy discrepancies_df lotecart_candidates original_df)"
        a emplacements] len dict
    obtain parts where "replay_parts
            (adjustments_dict
               (distribute_discrepancies strategy discrepancies_df lotecart_candidates
                  original_df))
            emplacements e = Some parts"
      "parts ! 14 = (if map to_lower (type_lot a) = ''lotecart'' then ''LOTECART''
                      else split CHR '';'' (o_original_s_line_raw e) ! 14)"
      by blast
    then show "\<exists>parts. replay_parts
            (adjustments_dict
               (distribute_discrepancies strategy discrepancies_df lotecart_candidates
                  original_df))
            emplacements e = Some parts
          \<and> parts ! 14 = ''LOTECART''"
      unfolding low by simp
  qed
  from first second show ?thesis by blast
qed

theorem found_stock_update_witness:
  "filter (\<lambda>l. o_CODE_ARTICLE l = ''ART001'' \<and> o_NUMERO_INVENTAIRE l = ''INV001''
                 \<and> o_QUANTITE l = 0)
       [stock_line ''1000'' ''0'' 0 ''LOT123456'' None ''E1'']
     = [stock_line ''1000'' ''0'' 0 ''LOT123456'' None ''E1'']
   \<and> detect_lotecart_candidates finite_number [template_row (Number 0) (Number 5)]
     = [\<lparr>Code_Article = ''ART001'', Numero_Inventaire = ''INV001'',
         Quantite_Theorique = 0, Quantite_Reelle = 5, Emplacements = None\<rparr>]
   \<and> (\<exists>u. candidate_adjustment [stock_line ''1000'' ''0'' 0 ''LOT123456'' None ''E1'']
              \<lparr>Code_Article = ''ART001'', Numero_Inventaire = ''INV001'',
               Quantite_Theorique = 0, Quantite_Reelle = 5, Emplacements = None\<rparr> = Some u
          \<and> NUMERO_LOT u = ''LOT123456'' \<and> QUANTITE_CORRIGEE u = Finite 5 \<and> AJUSTEMENT u = Finite 5
          \<and> is_existing_update u = Some True)
   \<and> (\<exists>parts. replay_parts
          (adjustments_dict
             (distribute_discrepancies ''FIFO'' [lot_line ''LOT123456'' None 0 5]
                (detect_lotecart_candidates finite_number [template_row (Number 0) (Number 5)])
                [stock_line ''1000'' ''0'' 0 ''LOT123456'' None ''E1'']))
          Map.empty (stock_line ''1000'' ''0'' 0 ''LOT123456'' None ''E1'') = Some parts
        \<and> parts ! 14 = ''LOTECART'')"
proof -
  let ?e = "stock_line ''1000'' ''0'' 0 ''LOT123456'' None ''E1''"
  let ?c = "\<lparr>Code_Article = ''ART001'', Numero_Inventaire = ''INV001'',
         Quantite_Theorique = 0 :: real, Quantite_Reelle = 5 :: real, Emplacements = None\<rparr>"
  have cands: "detect_lotecart_candidates finite_number [template_row (Number 0) (Number 5)]
      = [?c]"
    by (simp add: table_eval)
  have zero: "filter (\<lambda>l. o_CODE_ARTICLE l = Code_Article ?c
                 \<and> o_NUMERO_INVENTAIRE l = Numero_Inventaire ?c
                 \<and> o_QUANTITE l = 0) [?e] = ?e # []"
    by (simp add: stock_line_def)
  have len: "15 \<le> length (split CHR '';'' (o_original_s_line_raw ?e))"
    by (simp add: stock_line_def stock_raw_fields)
  have lot: "o_NUMERO_LOT ?e = ''LOT123456''" by (simp add: stock_line_def)
  have mem: "?c \<in> set [?c]" by simp
  from found_stock_update [OF mem zero, of "''FIFO''" "[lot_line ''LOT123456'' None 0 5]"
      Map.empty] len lot
  have "\<exists>u. candidate_adjustment [?e] ?c = Some u
          \<and> NUMERO_LOT u = ''LOT123456'' \<and> QUANTITE_CORRIGEE u = Finite 5 \<and> AJUSTEMENT u = Finite 5
          \<and> is_existing_update u = Some True"
    and "\<exists>parts. replay_parts
          (adjustments_dict
             (distribute_discrepancies ''FIFO'' [lot_line ''LOT123456'' None 0 5] [?c] [?e]))
          Map.empty ?e = Some parts
        \<and> parts ! 14 = ''LOTECART''"
    by auto
  with zero cands show ?thesis by simp
qed

subsection \<open>Two distributed rows for one lot\<close>

lemma replayed_line_written:
  "l \<in> set original_df \<Longrightarrow>
   replay_parts (adjustments_dict distributed_df) (emplacement_updates completed_df) l
     = Some parts \<Longrightarrow>
   join CHR '';'' parts
     \<in> set (generate_final_file header_lines distributed_df original_df completed_df)"
proof -
  assume l: "l \<in> set original_df"
    and r: "replay_parts (adjustments_dict distributed_df) (emplacement_updates completed_df) l
      = Some parts"
  let ?g = "\<lambda>original_row. map_option (join CHR '';'')
      (replay_parts (adjustments_dict distributed_df) (emplacement_updates completed_df)
         original_row)"
  have "y \<in> set (List.map_filter g xs)" if "x \<in> set xs" "g x = Some y"
    for g :: "original_row \<Rightarrow> string option" and x y xs
    using that by (induction xs) (auto split: option.splits)
  from this [of l original_df ?g "join CHR '';'' parts"] l r
  have "join CHR '';'' parts \<in> set (List.map_filter ?g original_df)" by simp
  then show ?thesis by (simp add: generate_final_file_def)
qed

text \<open>
  C10. The key of an adjustment is made of the article, the inventory and the stripped lot
  only: the status, the unit, the zone and the location of the row do not enter it. When
  two rows of the table of distributed rows have the same key, the later one \<open>r2\<close> being the
  last row with that key, the dictionary holds the data of \<open>r2\<close>, and every original line
  with that key (of at least 15 fields) is written in the final file with the corrected
  quantity of \<open>r2\<close> in field 6 and its indicator in field 7.
\<close>

theorem later_row_overwrites:
  "adjustment_key (r\<lparr>STATUT := statut, UNITE := unite, ZONE_PK := zone_pk,
                     EMPLACEMENT := emplacement\<rparr>) = adjustment_key r
   \<and> (distributed_df = pre @ r1 # mid @ r2 # post
       \<and> adjustment_key r1 = adjustment_key r2
       \<and> list_all (\<lambda>x. adjustment_key x \<noteq> adjustment_key r2) post \<longrightarrow>
       adjustments_dict distributed_df (adjustment_key r1) = Some (adjustment_of r2)
       \<and> (l \<in> set original_df \<and> original_key l = adjustment_key r2
           \<and> 15 \<le> length (split CHR '';'' (o_original_s_line_raw l)) \<longrightarrow>
           (\<exists>parts. replay_parts (adjustments_dict distributed_df)
                       (emplacement_updates completed_df) l = Some parts
              \<and> join CHR '';'' parts
                  \<in> set (generate_final_file header_lines distributed_df original_df
                            completed_df)
              \<and> split CHR '';'' (join CHR '';'' parts) ! 6
                  = to_csv_number (PyFloat (QUANTITE_CORRIGEE r2)) '',''
              \<and> split CHR '';'' (join CHR '';'' parts) ! 7
                  = count_indicator (QUANTITE_CORRIGEE r2))))"
proof (intro conjI impI)
  show "adjustment_key (r\<lparr>STATUT := statut, UNITE := unite, ZONE_PK := zone_pk,
                     EMPLACEMENT := emplacement\<rparr>) = adjustment_key r"
    by (simp add: adjustment_key_def)
next
  assume h: "distributed_df = pre @ r1 # mid @ r2 # post
       \<and> adjustment_key r1 = adjustment_key r2
       \<and> list_all (\<lambda>x. adjustment_key x \<noteq> adjustment_key r2) post"
  then have "\<forall>x \<in> set post. adjustment_key x \<noteq> adjustment_key r2" by (simp add: list_all_iff)
  then have "adjustments_dict ((pre @ r1 # mid) @ r2 # post) (adjustment_key r2)
      = Some (adjustment_of r2)"
    by (rule adjustments_dict_last)
  with h show "adjustments_dict distributed_df (adjustment_key r1) = Some (adjustment_of r2)"
    by simp
next
  assume h: "distributed_df = pre @ r1 # mid @ r2 # post
       \<and> adjustment_key r1 = adjustment_key r2
       \<and> list_all (\<lambda>x. adjustment_key x \<noteq> adjustment_key r2) post"
    and l: "l \<in> set original_df \<and> original_key l = adjustment_key r2
           \<and> 15 \<le> length (split CHR '';'' (o_original_s_line_raw l))"
  from h have "\<forall>x \<in> set post. adjustment_key x \<noteq> adjustment_key r2" by (simp add: list_all_iff)
  then have "adjustments_dict ((pre @ r1 # mid) @ r2 # post) (adjustment_key r2)
      = Some (adjustment_of r2)"
    by (rule adjustments_dict_last)
  with h l have dict: "adjustments_dict distributed_df (original_key l) = Some (adjustment_of r2)"
    by simp
  from l have len: "15 \<le> length (split CHR '';'' (o_original_s_line_raw l))" by simp
  from replay_line_fields [of l "adjustments_dict distributed_df" "adjustment_of r2"
      "emplacement_updates completed_df"] len dict
  obtain parts where p: "replay_parts (adjustments_dict distributed_df)
        (emplacement_updates completed_df) l = Some parts"
    "split CHR '';'' (join CHR '';'' parts) ! 6
       = to_csv_number (PyFloat (qte_theo_ajustee (adjustment_of r2))) '',''"
    "split CHR '';'' (join CHR '';'' parts) ! 7
       = count_indicator (qte_theo_ajustee (adjustment_of r2))"
    by blast
  from l p(1) have "join CHR '';'' parts
      \<in> set (generate_final_file header_lines distributed_df original_df completed_df)"
    by (intro replayed_line_written) simp_all
  with p show "\<exists>parts. replay_parts (adjustments_dict distributed_df)
                       (emplacement_updates completed_df) l = Some parts
              \<and> join CHR '';'' parts
                  \<in> set (generate_final_file header_lines distributed_df original_df
                            completed_df)
              \<and> split CHR '';'' (join CHR '';'' parts) ! 6
                  = to_csv_number (PyFloat (QUANTITE_CORRIGEE r2)) '',''
              \<and> split CHR '';'' (join CHR '';'' parts) ! 7
                  = count_indicator (QUANTITE_CORRIGEE r2)"
    by (auto simp: adjustment_of_def)
qed

lemma two_locations_discrepancies:
  "calculate_discrepancies [template_row (Number 15) (Number 8)] two_locations
     = Some [lot_line ''LOTA'' None 10 8, lot_line ''LOTB'' None 5 8,
             (lot_line ''LOTA'' None 5 8)\<lparr>EMPLACEMENT := ''E2''\<rparr>]"
  by (simp add: two_locations_def table_eval lot_line_def strip_def is_space_def)

lemma two_locations_groups:
  "groupby [lot_line ''LOTA'' None 10 8, lot_line ''LOTB'' None 5 8,
            (lot_line ''LOTA'' None 5 8)\<lparr>EMPLACEMENT := ''E2''\<rparr>]
     = [[lot_line ''LOTA'' None 10 8, lot_line ''LOTB'' None 5 8],
        [(lot_line ''LOTA'' None 5 8)\<lparr>EMPLACEMENT := ''E2''\<rparr>]]"
  by (simp add: groupby_def group_key_def lot_line_def)

lemma two_locations_table:
  "distribute_discrepancies ''FIFO''
     [lot_line ''LOTA'' None 10 8, lot_line ''LOTB'' None 5 8,
      (lot_line ''LOTA'' None 5 8)\<lparr>EMPLACEMENT := ''E2''\<rparr>]
     (detect_lotecart_candidates finite_number [template_row (Number 15) (Number 8)])
     two_locations
   = [] @ adjusted 8 (-7) 3 (lot_line ''LOTA'' None 10 8)
       # [adjusted 8 0 5 (lot_line ''LOTB'' None 5 8)]
       @ adjusted 8 3 8 ((lot_line ''LOTA'' None 5 8)\<lparr>EMPLACEMENT := ''E2''\<rparr>) # []"
proof -
  have c: "detect_lotecart_candidates finite_number [template_row (Number 15) (Number 8)] = []"
    by (simp add: table_eval)
  have g1: "distribute_group ''FIFO'' (lot_line ''LOTA'' None 10 8) [lot_line ''LOTB'' None 5 8]
      = ([adjusted 8 (-7) 3 (lot_line ''LOTA'' None 10 8),
          adjusted 8 0 5 (lot_line ''LOTB'' None 5 8)], Finite 0)"
    by (simp add: distribute_group_def sorted_group_def fifo_before_def ecart_total_def
          py_sub_def allocate_def lot_line_def adjusted_def)
  have g2: "distribute_group ''FIFO'' ((lot_line ''LOTA'' None 5 8)\<lparr>EMPLACEMENT := ''E2''\<rparr>) []
      = ([adjusted 8 3 8 ((lot_line ''LOTA'' None 5 8)\<lparr>EMPLACEMENT := ''E2''\<rparr>)], Finite 0)"
    by (simp add: distribute_group_def sorted_group_def ecart_total_def
          py_sub_def allocate_def lot_line_def adjusted_def)
  show ?thesis
    by (simp add: distribute_discrepancies_def two_locations_groups g1 g2 c
          create_lotecart_adjustments_def)
qed

theorem later_row_overwrites_witness:
  "calculate_discrepancies [template_row (Number 15) (Number 8)] two_locations
     = Some [lot_line ''LOTA'' None 10 8, lot_line ''LOTB'' None 5 8,
             (lot_line ''LOTA'' None 5 8)\<lparr>EMPLACEMENT := ''E2''\<rparr>]
   \<and> map (\<lambda>r. (NUMERO_LOT r, EMPLACEMENT r, QUANTITE_CORRIGEE r))
       (distribute_discrepancies ''FIFO''
          [lot_line ''LOTA'' None 10 8, lot_line ''LOTB'' None 5 8,
           (lot_line ''LOTA'' None 5 8)\<lparr>EMPLACEMENT := ''E2''\<rparr>]
          (detect_lotecart_candidates finite_number [template_row (Number 15) (Number 8)])
          two_locations)
     = [(''LOTA'', ''E1'', Finite 3), (''LOTB'', ''E1'', Finite 5), (''LOTA'', ''E2'', Finite 8)]
   \<and> (\<exists>parts. replay_parts
          (adjustments_dict
             (distribute_discrepancies ''FIFO''
                [lot_line ''LOTA'' None 10 8, lot_line ''LOTB'' None 5 8,
                 (lot_line ''LOTA'' None 5 8)\<lparr>EMPLACEMENT := ''E2''\<rparr>]
                (detect_lotecart_candidates finite_number
                   [template_row (Number 15) (Number 8)])
                two_locations))
          (emplacement_updates [template_row (Number 15) (Number 8)])
          (stock_line ''1000'' ''10'' 10 ''LOTA'' None ''E1'') = Some parts
        \<and> split CHR '';'' (join CHR '';'' parts) ! 9 = ''E1''
        \<and> split CHR '';'' (join CHR '';'' parts) ! 6 = ''8''
        \<and> split CHR '';'' (join CHR '';'' parts) ! 7 = ''1'')"
proof -
  let ?r1 = "adjusted 8 (-7) 3 (lot_line ''LOTA'' None 10 8)"
  let ?mid = "[adjusted 8 0 5 (lot_line ''LOTB'' None 5 8)]"
  let ?r2 = "adjusted 8 3 8 ((lot_line ''LOTA'' None 5 8)\<lparr>EMPLACEMENT := ''E2''\<rparr>)"
  let ?disc = "[lot_line ''LOTA'' None 10 8, lot_line ''LOTB'' None 5 8,
      (lot_line ''LOTA'' None 5 8)\<lparr>EMPLACEMENT := ''E2''\<rparr>]"
  let ?tmpl = "[template_row (Number 15) (Number 8)]"
  let ?table = "distribute_discrepancies ''FIFO'' ?disc
      (detect_lotecart_candidates finite_number ?tmpl) two_locations"
  let ?l = "stock_line ''1000'' ''10'' 10 ''LOTA'' None ''E1''"
  have table: "?table = [] @ ?r1 # ?mid @ ?r2 # []" by (rule two_locations_table)
  have keys: "adjustment_key ?r1 = adjustment_key ?r2"
    by (simp add: adjustment_key_def adjusted_def lot_line_def)
  have last: "list_all (\<lambda>x. adjustment_key x \<noteq> adjustment_key ?r2) []" by simp
  have l: "?l \<in> set two_locations" by (simp add: two_locations_def)
  have key: "original_key ?l = adjustment_key ?r2"
    by (simp add: original_key_def adjustment_key_def adjusted_def lot_line_def stock_line_def)
  have raw: "split CHR '';'' (o_original_s_line_raw ?l)
      = [''S'', ''SES001'', ''INV001'', ''1000'', ''FR01'', ''10'', ''0'', ''1'',
         ''ART001'', ''E1'', ''A'', ''UN'', ''0'', ''Z1'', ''LOTA'']"
    by (simp add: stock_line_def stock_raw_fields)
  then have len: "15 \<le> length (split CHR '';'' (o_original_s_line_raw ?l))" by simp
  have q: "QUANTITE_CORRIGEE ?r2 = Finite 8" by (simp add: adjusted_def)
  from later_row_overwrites [of _ _ _ _ _ ?table "[]" ?r1 ?mid ?r2 "[]" ?l two_locations
      ?tmpl "[]"] table keys last l key len
  obtain parts where p: "replay_parts (adjustments_dict ?table) (emplacement_updates ?tmpl) ?l
        = Some parts"
    "split CHR '';'' (join CHR '';'' parts) ! 6
       = to_csv_number (PyFloat (QUANTITE_CORRIGEE ?r2)) '',''"
    "split CHR '';'' (join CHR '';'' parts) ! 7 = count_indicator (QUANTITE_CORRIGEE ?r2)"
    by blast
  have emp: "emplacement_updates ?tmpl = Map.empty"
    by (simp add: emplacement_updates_def template_row_def)
  have dict: "adjustments_dict ?table (original_key ?l) = Some (adjustment_of ?r2)"
    unfolding key table using adjustments_dict_last [of "[]" ?r2 "[] @ ?r1 # ?mid"] by simp
  have a: "qte_theo_ajustee (adjustment_of ?r2) = Finite 8" "type_lot (adjustment_of ?r2) = ''unknown''"
    by (simp_all add: adjustment_of_def adjusted_def lot_line_def)
  have parts: "parts = [''S'', ''SES001'', ''INV001'', ''1000'', ''FR01'', ''10'', ''8'', ''1'',
         ''ART001'', ''E1'', ''A'', ''UN'', ''0'', ''Z1'', ''LOTA'']"
    using p(1) unfolding emp
    by (simp add: replay_parts_def raw dict a printed_examples count_indicator_def
          zero_epsilon_def to_lower_def Let_def)
  have f9: "split CHR '';'' (join CHR '';'' parts) ! 9 = ''E1''" unfolding parts by simp
  have "map (\<lambda>r. (NUMERO_LOT r, EMPLACEMENT r, QUANTITE_CORRIGEE r)) ?table
      = [(''LOTA'', ''E1'', Finite 3), (''LOTB'', ''E1'', Finite 5), (''LOTA'', ''E2'', Finite 8)]"
    unfolding table by (simp add: adjusted_def lot_line_def)
  with p f9 q two_locations_discrepancies show ?thesis
    by (simp add: printed_examples count_indicator_def zero_epsilon_def)
qed

subsection \<open>Found-stock candidates\<close>

text \<open>
  C6. A row of the cleaned template is a found-stock candidate if and only if it is the
  cleaning of a row of the completed template, its theoretical quantity is exactly zero
  and its counted quantity is strictly positive; a row whose counted quantity is zero is
  never a candidate. For a template row whose quantity cells are numbers: it gives a
  candidate exactly when the theoretical number is 0 and the counted number is positive.
\<close>

theorem lotecart_candidate_criterion:
  "(c \<in> set (detect_lotecart_candidates to_numeric completed_df)
      \<longleftrightarrow> (\<exists>r \<in> set completed_df. c = df_clean to_numeric r)
          \<and> Quantite_Theorique c = 0 \<and> Quantite_Reelle c > 0)
   \<and> (Quantite_Reelle c = 0 \<longrightarrow> c \<notin> set (detect_lotecart_candidates to_numeric completed_df))
   \<and> (Quantite_Theorique r = Number t \<and> Quantite_Reelle r = Number q \<longrightarrow>
        (lotecart_mask (df_clean to_numeric r) \<longleftrightarrow> t = 0 \<and> q > 0))
   \<and> detect_lotecart_candidates to_numeric completed_df
       = filter (\<lambda>c. Quantite_Theorique c = 0 \<and> Quantite_Reelle c > 0)
           (map (df_clean to_numeric) completed_df)"
proof -
  have m: "lotecart_mask = (\<lambda>c. Quantite_Theorique c = 0 \<and> Quantite_Reelle c > 0)"
    by (rule ext) (simp add: lotecart_mask_def)
  show ?thesis
    unfolding detect_lotecart_candidates_def m
    by (auto simp: df_clean_def clean_quantity_def)
qed

theorem lotecart_candidate_criterion_witness:
  "map (\<lambda>c. (Quantite_Theorique c, Quantite_Reelle c))
     (detect_lotecart_candidates finite_number
        [template_row (Number 0) (Number 5), template_row (Number 0) (Number 0),
         template_row (Number 10) (Number 12), template_row Blank (Text ''3,5''),
         template_row (Number 0) Blank])
     = [(0, 5), (0, 7/2)]
   \<and> lotecart_mask (df_clean finite_number (template_row (Number 0) (Number 5)))
   \<and> \<not> lotecart_mask (df_clean finite_number (template_row (Number 0) (Number 0)))
   \<and> df_clean finite_number (template_row (Number 0) (Number 0))
       \<notin> set (detect_lotecart_candidates finite_number
                [template_row (Number 0) (Number 5), template_row (Number 0) (Number 0)])"
proof -
  have t: "finite_number ''3.5'' = Some (7/2)"
    by (simp add: finite_number_def parse_eval)
  have cands: "map (\<lambda>c. (Quantite_Theorique c, Quantite_Reelle c))
     (detect_lotecart_candidates finite_number
        [template_row (Number 0) (Number 5), template_row (Number 0) (Number 0),
         template_row (Number 10) (Number 12), template_row Blank (Text ''3,5''),
         template_row (Number 0) Blank])
     = [(0, 5), (0, 7/2)]"
    by (simp add: detect_lotecart_candidates_def df_clean_def clean_quantity_def
          lotecart_mask_def template_row_def replace_char_def t)
  have q: "Quantite_Theorique (template_row (Number 0) (Number 5)) = Number 0"
      "Quantite_Reelle (template_row (Number 0) (Number 5)) = Number 5"
      "Quantite_Theorique (template_row (Number 0) (Number 0)) = Number 0"
      "Quantite_Reelle (template_row (Number 0) (Number 0)) = Number 0"
    by (simp_all add: template_row_def)
  have z: "Quantite_Reelle (df_clean finite_number (template_row (Number 0) (Number 0))) = 0"
    by (simp add: df_clean_def clean_quantity_def template_row_def)
  from lotecart_candidate_criterion [of _ finite_number _ "template_row (Number 0) (Number 5)"
      0 5] q(1,2)
  have a: "lotecart_mask (df_clean finite_number (template_row (Number 0) (Number 5)))"
    by simp
  from lotecart_candidate_criterion [of _ finite_number _ "template_row (Number 0) (Number 0)"
      0 0] q(3,4)
  have b: "\<not> lotecart_mask (df_clean finite_number (template_row (Number 0) (Number 0)))"
    by simp
  from lotecart_candidate_criterion
      [of "df_clean finite_number (template_row (Number 0) (Number 0))" finite_number
        "[template_row (Number 0) (Number 5), template_row (Number 0) (Number 0)]"] z
  have c: "df_clean finite_number (template_row (Number 0) (Number 0))
       \<notin> set (detect_lotecart_candidates finite_number
                [template_row (Number 0) (Number 5), template_row (Number 0) (Number 0)])"
    by blast
  from cands a b c show ?thesis by blast
qed

section \<open>A counted quantity that is missing\<close>



end
